theory Spec2Isabelle
  imports Main "HOL-Library.Word"
begin

section \<open>Strings and bytes\<close>

text \<open>
  A Python \<open>str\<close> is a sequence of code points, a \<open>bytes\<close> object a sequence of
  octets. String literals of the source are written with \<open>str\<close>, which maps each
  ASCII character of an Isabelle literal to its code point.
\<close>

type_synonym pystr = "nat list"
type_synonym bytes = "8 word list"

definition str :: "string \<Rightarrow> pystr" where
  "str cs = map of_char cs"

text \<open>
  A Unicode scalar value: a code point that is not a surrogate. Text is a sequence of
  scalar values; a \<open>str\<close> may also hold surrogates.
\<close>

definition scalar :: "nat \<Rightarrow> bool" where
  "scalar c \<longleftrightarrow> c < 55296 \<or> (57343 < c \<and> c < 1114112)"

text \<open>\<open>s.startswith(p)\<close>.\<close>

fun startswith :: "pystr \<Rightarrow> pystr \<Rightarrow> bool" where
  "startswith s [] = True"
| "startswith [] (p # ps) = False"
| "startswith (c # cs) (p # ps) = (c = p \<and> startswith cs ps)"

section \<open>HTML Rewriter: the substitution of \<open>process_images\<close>\<close>

text \<open>
  The character class \<open>\s\<close> of a \<open>str\<close> pattern: the code points for which
  \<open>str.isspace\<close> holds.
\<close>

definition is_space :: "nat \<Rightarrow> bool" where
  "is_space c \<longleftrightarrow>
     (9 \<le> c \<and> c \<le> 13) \<or> (28 \<le> c \<and> c \<le> 32) \<or> c = 133 \<or> c = 160 \<or> c = 5760 \<or>
     (8192 \<le> c \<and> c \<le> 8202) \<or> c = 8232 \<or> c = 8233 \<or> c = 8239 \<or> c = 8287 \<or>
     c = 12288"

definition is_quote :: "nat \<Rightarrow> bool" where
  "is_quote c \<longleftrightarrow> c = 34 \<or> c = 39"

text \<open>
  The pattern is \<open>src\s*=\s*["']?URL["']?\<close> with the URL escaped, that is, literal.
  \<open>match_url\<close> is the part from the opening quote on, at the head of the text: the
  optional quote is tried taken first, then absent; the closing quote is taken when
  present. The result is the number of characters matched.
\<close>

definition closing :: "pystr \<Rightarrow> nat" where
  "closing cs = (case cs of [] \<Rightarrow> 0 | c # _ \<Rightarrow> if is_quote c then 1 else 0)"

definition match_url :: "pystr \<Rightarrow> pystr \<Rightarrow> nat option" where
  "match_url url cs =
     (if cs \<noteq> [] \<and> is_quote (hd cs) \<and> startswith (tl cs) url
      then Some (1 + length url + closing (drop (length url) (tl cs)))
      else if startswith cs url
      then Some (length url + closing (drop (length url) cs))
      else None)"

text \<open>
  The second \<open>\s*\<close> is greedy and backtracks: with \<open>k\<close> whitespace characters taken,
  then \<open>k - 1\<close>, down to none.
\<close>

fun match_ws :: "nat \<Rightarrow> pystr \<Rightarrow> pystr \<Rightarrow> nat option" where
  "match_ws 0 url cs = match_url url cs"
| "match_ws (Suc k) url cs =
     (case match_url url (drop (Suc k) cs) of
        Some n \<Rightarrow> Some (Suc k + n)
      | None \<Rightarrow> match_ws k url cs)"

text \<open>The whole pattern at the head of the text; the length of the match.\<close>

definition match_src :: "pystr \<Rightarrow> pystr \<Rightarrow> nat option" where
  "match_src url cs =
     (if startswith cs (str ''src'') then
        let r1 = drop 3 cs;
            w1 = length (takeWhile is_space r1);
            r2 = drop w1 r1
        in if startswith r2 (str ''='') then
             let r3 = drop 1 r2;
                 w2 = length (takeWhile is_space r3)
             in map_option (\<lambda>n. 3 + w1 + 1 + n) (match_ws w2 url r3)
           else None
      else None)"

text \<open>
  \<open>re.sub(pattern, repl, html)\<close>: the matches are found from left to right and do not
  overlap; \<open>skip\<close> counts the characters of the current match still to be dropped.
  The replacement text is taken literally: it is \<open>src="<local_file>"\<close>, and the
  local names that \<open>download_image\<close> returns hold no backslash.
\<close>

fun re_sub :: "pystr \<Rightarrow> pystr \<Rightarrow> nat \<Rightarrow> pystr \<Rightarrow> pystr" where
  "re_sub url repl skip [] = []"
| "re_sub url repl skip (c # cs) =
     (case skip of
        Suc k \<Rightarrow> re_sub url repl k cs
      | 0 \<Rightarrow>
          (case match_src url (c # cs) of
             Some n \<Rightarrow> repl @ re_sub url repl (n - 1) cs
           | None \<Rightarrow> c # re_sub url repl 0 cs))"

text \<open>
  The loop over \<open>replacements.items()\<close>: one substitution per mapped URL, in the
  insertion order of the dictionary.
\<close>

fun rewrite_html :: "(pystr \<times> pystr) list \<Rightarrow> pystr \<Rightarrow> pystr" where
  "rewrite_html [] html = html"
| "rewrite_html ((url, local_file) # rs) html =
     rewrite_html rs (re_sub url (str ''src=\"'' @ local_file @ str ''\"'') 0 html)"

section \<open>Exceptions\<close>

text \<open>
  The exceptions the program can meet. Only the distinctions that the handlers of
  \<open>main\<close> make are kept apart; an exception that carries a text carries \<open>str(e)\<close>.
\<close>

datatype exn =
    StructError
  | UnicodeDecodeError
  | UnicodeEncodeError
  | JSONDecodeError
  | AttributeError pystr
  | TypeError pystr
  | ValueError pystr
  | RuntimeError pystr
  | FileNotFoundError pystr
  | OSError pystr
  | TimeoutExpired
  | AssertionError pystr
  | SMTPAuthenticationError
  | SMTPException pystr

section \<open>UTF-8\<close>

text \<open>\<open>s.encode("utf-8")\<close>: surrogates cannot be encoded.\<close>

definition utf8_char :: "nat \<Rightarrow> nat list option" where
  "utf8_char c =
     (if c < 128 then Some [c]
      else if c < 2048 then Some [192 + c div 64, 128 + c mod 64]
      else if 55296 \<le> c \<and> c \<le> 57343 then None
      else if c < 65536 then
        Some [224 + c div 4096, 128 + c div 64 mod 64, 128 + c mod 64]
      else if c < 1114112 then
        Some [240 + c div 262144, 128 + c div 4096 mod 64, 128 + c div 64 mod 64,
              128 + c mod 64]
      else None)"

fun utf8_encode_nat :: "pystr \<Rightarrow> nat list option" where
  "utf8_encode_nat [] = Some []"
| "utf8_encode_nat (c # cs) =
     (case utf8_char c of
        None \<Rightarrow> None
      | Some bs \<Rightarrow> map_option ((@) bs) (utf8_encode_nat cs))"

definition utf8_encode :: "pystr \<Rightarrow> exn + bytes" where
  "utf8_encode s =
     (case utf8_encode_nat s of
        None \<Rightarrow> Inl UnicodeEncodeError
      | Some bs \<Rightarrow> Inr (map of_nat bs))"

text \<open>
  \<open>b.decode("utf-8")\<close>, strict: overlong forms, surrogates, values above U+10FFFF
  and truncated sequences are errors.
\<close>

definition cont :: "nat \<Rightarrow> bool" where
  "cont b \<longleftrightarrow> 128 \<le> b \<and> b \<le> 191"

fun utf8_decode_nat :: "nat list \<Rightarrow> pystr option" where
  "utf8_decode_nat [] = Some []"
| "utf8_decode_nat (b # bs) =
     (if b < 128 then map_option ((#) b) (utf8_decode_nat bs)
      else if 194 \<le> b \<and> b \<le> 223 then
        (case bs of
           b1 # r \<Rightarrow>
             if cont b1
             then map_option ((#) ((b - 192) * 64 + (b1 - 128))) (utf8_decode_nat r)
             else None
         | _ \<Rightarrow> None)
      else if 224 \<le> b \<and> b \<le> 239 then
        (case bs of
           b1 # b2 # r \<Rightarrow>
             if cont b1 \<and> cont b2 \<and> (b = 224 \<longrightarrow> 160 \<le> b1) \<and> (b = 237 \<longrightarrow> b1 \<le> 159)
             then map_option ((#) ((b - 224) * 4096 + (b1 - 128) * 64 + (b2 - 128)))
                    (utf8_decode_nat r)
             else None
         | _ \<Rightarrow> None)
      else if 240 \<le> b \<and> b \<le> 244 then
        (case bs of
           b1 # b2 # b3 # r \<Rightarrow>
             if cont b1 \<and> cont b2 \<and> cont b3 \<and> (b = 240 \<longrightarrow> 144 \<le> b1) \<and>
                (b = 244 \<longrightarrow> b1 \<le> 143)
             then map_option
                    ((#) ((b - 240) * 262144 + (b1 - 128) * 4096 + (b2 - 128) * 64 +
                          (b3 - 128)))
                    (utf8_decode_nat r)
             else None
         | _ \<Rightarrow> None)
      else None)"

definition utf8_decode :: "bytes \<Rightarrow> exn + pystr" where
  "utf8_decode bs =
     (case utf8_decode_nat (map unat bs) of
        None \<Rightarrow> Inl UnicodeDecodeError
      | Some s \<Rightarrow> Inr s)"

section \<open>The length prefix: \<open>struct\<close> format \<open>@I\<close>\<close>

text \<open>
  \<open>@I\<close> is an unsigned int of four bytes in the byte order of the platform, which is
  a parameter of the model.
\<close>

datatype byteorder = LittleEndian | BigEndian

definition le_bytes :: "nat \<Rightarrow> bytes" where
  "le_bytes n =
     [of_nat (n mod 256), of_nat (n div 256 mod 256), of_nat (n div 65536 mod 256),
      of_nat (n div 16777216 mod 256)]"

definition native_bytes :: "byteorder \<Rightarrow> nat \<Rightarrow> bytes" where
  "native_bytes bo n = (case bo of LittleEndian \<Rightarrow> le_bytes n | BigEndian \<Rightarrow> rev (le_bytes n))"

definition struct_pack :: "byteorder \<Rightarrow> nat \<Rightarrow> exn + bytes" where
  "struct_pack bo n = (if n < 4294967296 then Inr (native_bytes bo n) else Inl StructError)"

definition le_value :: "bytes \<Rightarrow> nat" where
  "le_value bs = foldr (\<lambda>b acc. unat b + 256 * acc) bs 0"

definition struct_unpack :: "byteorder \<Rightarrow> bytes \<Rightarrow> exn + nat" where
  "struct_unpack bo raw =
     (if length raw = 4
      then Inr (le_value (case bo of LittleEndian \<Rightarrow> raw | BigEndian \<Rightarrow> rev raw))
      else Inl StructError)"

section \<open>JSON\<close>

text \<open>
  The values \<open>json.loads\<close> returns. A \<open>dict\<close> is the list of its items in insertion
  order, with distinct keys. A float is kept as its literal: its value is not
  modelled.
\<close>

datatype json =
    JNull
  | JBool bool
  | JInt int
  | JFloat pystr
  | JStr pystr
  | JArr "json list"
  | JObj "(pystr \<times> json) list"

text \<open>\<open>d[k] = v\<close> and \<open>d.get(k)\<close>.\<close>

definition dict_set :: "(pystr \<times> 'v) list \<Rightarrow> pystr \<Rightarrow> 'v \<Rightarrow> (pystr \<times> 'v) list" where
  "dict_set d k v =
     (if k \<in> fst ` set d then map (\<lambda>(k', v'). if k' = k then (k', v) else (k', v')) d
      else d @ [(k, v)])"

definition dict_get :: "(pystr \<times> 'v) list \<Rightarrow> pystr \<Rightarrow> 'v option" where
  "dict_get d k = map_of d k"

subsection \<open>\<open>json.dumps\<close>\<close>

definition hexdigit :: "nat \<Rightarrow> nat" where
  "hexdigit d = (if d < 10 then 48 + d else 87 + d)"

definition hex4 :: "nat \<Rightarrow> pystr" where
  "hex4 n = [hexdigit (n div 4096 mod 16), hexdigit (n div 256 mod 16),
             hexdigit (n div 16 mod 16), hexdigit (n mod 16)]"

text \<open>
  The encoder with \<open>ensure_ascii\<close>: the quote (34), the backslash (92) and the five control
  characters with a short form, the printable ASCII characters as they are, the rest
  as \<open>\uXXXX\<close>, a code point above U+FFFF as a surrogate pair.
\<close>

definition escape_char :: "nat \<Rightarrow> pystr" where
  "escape_char c =
     (if c = 34 then [92, 34]
      else if c = 92 then [92, 92]
      else if c = 10 then 92 # str ''n''
      else if c = 13 then 92 # str ''r''
      else if c = 9 then 92 # str ''t''
      else if c = 8 then 92 # str ''b''
      else if c = 12 then 92 # str ''f''
      else if 32 \<le> c \<and> c \<le> 126 then [c]
      else if c < 65536 then 92 # str ''u'' @ hex4 c
      else 92 # str ''u'' @ hex4 (55296 + (c - 65536) div 1024) @
           92 # str ''u'' @ hex4 (56320 + (c - 65536) mod 1024))"

definition escape :: "pystr \<Rightarrow> pystr" where
  "escape s = concat (map escape_char s)"

definition quoted :: "pystr \<Rightarrow> pystr" where
  "quoted s = str ''\"'' @ escape s @ str ''\"''"

function digits :: "nat \<Rightarrow> pystr" where
  "digits n = (if n < 10 then [48 + n] else digits (n div 10) @ [48 + n mod 10])"
  by pat_completeness auto
termination
  by (relation "measure id") auto

declare digits.simps [simp del]

definition int_repr :: "int \<Rightarrow> pystr" where
  "int_repr i = (if i < 0 then str ''-'' @ digits (nat (- i)) else digits (nat i))"

fun join :: "pystr \<Rightarrow> pystr list \<Rightarrow> pystr" where
  "join sep [] = []"
| "join sep [x] = x"
| "join sep (x # y # ys) = x @ sep @ join sep (y # ys)"

text \<open>
  \<open>json.dumps\<close> with the default separators. \<open>fr\<close> is \<open>float.__repr__\<close>, on the
  literal that stands for the float.
\<close>

fun json_dumps :: "(pystr \<Rightarrow> pystr) \<Rightarrow> json \<Rightarrow> pystr" where
  "json_dumps fr JNull = str ''null''"
| "json_dumps fr (JBool b) = (if b then str ''true'' else str ''false'')"
| "json_dumps fr (JInt i) = int_repr i"
| "json_dumps fr (JFloat l) = fr l"
| "json_dumps fr (JStr s) = quoted s"
| "json_dumps fr (JArr xs) = str ''['' @ join (str '', '') (map (json_dumps fr) xs) @ str '']''"
| "json_dumps fr (JObj kvs) =
     str ''{'' @
     join (str '', '') (map (\<lambda>(k, v). quoted k @ str '': '' @ json_dumps fr v) kvs) @
     str ''}''"

subsection \<open>\<open>json.loads\<close>\<close>

definition json_ws :: "nat \<Rightarrow> bool" where
  "json_ws c \<longleftrightarrow> c = 32 \<or> c = 9 \<or> c = 10 \<or> c = 13"

definition skip_ws :: "pystr \<Rightarrow> pystr" where
  "skip_ws cs = dropWhile json_ws cs"

definition is_digit :: "nat \<Rightarrow> bool" where
  "is_digit c \<longleftrightarrow> 48 \<le> c \<and> c \<le> 57"

definition unhex :: "nat \<Rightarrow> nat option" where
  "unhex c =
     (if 48 \<le> c \<and> c \<le> 57 then Some (c - 48)
      else if 97 \<le> c \<and> c \<le> 102 then Some (c - 87)
      else if 65 \<le> c \<and> c \<le> 70 then Some (c - 55)
      else None)"

text \<open>The four hexadecimal digits of a \<open>\uXXXX\<close> escape.\<close>

definition scan_hex4 :: "pystr \<Rightarrow> nat option" where
  "scan_hex4 cs =
     (case cs of
        a # b # c # d # _ \<Rightarrow>
          (case (unhex a, unhex b, unhex c, unhex d) of
             (Some x, Some y, Some z, Some w) \<Rightarrow> Some (((x * 16 + y) * 16 + z) * 16 + w)
           | _ \<Rightarrow> None)
      | _ \<Rightarrow> None)"

definition unescape :: "nat \<Rightarrow> nat option" where
  "unescape e =
     (if e = 34 \<or> e = 92 \<or> e = 47 then Some e
      else if e = 98 then Some 8
      else if e = 102 then Some 12
      else if e = 110 then Some 10
      else if e = 114 then Some 13
      else if e = 116 then Some 9
      else None)"

definition cons_str :: "nat \<Rightarrow> (pystr \<times> pystr) option \<Rightarrow> (pystr \<times> pystr) option" where
  "cons_str c r = map_option (\<lambda>(s, rest). (c # s, rest)) r"

text \<open>
  The scanner of a string, strict, from the character after the opening quote: the
  decoded text and the input after the closing quote. A high surrogate escape
  followed by a low surrogate escape is one code point.
\<close>

function scanstring :: "pystr \<Rightarrow> (pystr \<times> pystr) option" where
  "scanstring [] = None"
| "scanstring (c # cs) =
     (if c = 34 then Some ([], cs)
      else if c = 92 then
        (case cs of
           [] \<Rightarrow> None
         | e # r \<Rightarrow>
             if e = 117 then
               (case scan_hex4 r of
                  None \<Rightarrow> None
                | Some u \<Rightarrow>
                    if 55296 \<le> u \<and> u \<le> 56319 \<and> startswith (drop 4 r) [92, 117] then
                      (case scan_hex4 (drop 6 r) of
                         None \<Rightarrow> None
                       | Some u2 \<Rightarrow>
                           if 56320 \<le> u2 \<and> u2 \<le> 57343
                           then cons_str (65536 + (u - 55296) * 1024 + (u2 - 56320))
                                  (scanstring (drop 10 r))
                           else cons_str u (scanstring (drop 4 r)))
                    else cons_str u (scanstring (drop 4 r)))
             else
               (case unescape e of
                  None \<Rightarrow> None
                | Some ch \<Rightarrow> cons_str ch (scanstring r)))
      else if c \<le> 31 then None
      else cons_str c (scanstring cs))"
  by pat_completeness auto
termination
  by (relation "measure length") auto

declare scanstring.simps [simp del]

text \<open>
  A number: an optional minus sign, \<open>0\<close> or a digit sequence not starting with
  \<open>0\<close>, a fraction when a digit follows the point, an exponent when a digit follows
  \<open>e\<close> and its sign. With neither fraction nor exponent it is an \<open>int\<close>, and
  \<open>int\<close> refuses more than 4300 digits.
\<close>

definition dec_value :: "pystr \<Rightarrow> nat" where
  "dec_value ds = foldl (\<lambda>a d. 10 * a + (d - 48)) 0 ds"

definition match_number :: "pystr \<Rightarrow> (json \<times> pystr) option" where
  "match_number cs =
     (let neg = (cs \<noteq> [] \<and> hd cs = 45);
          r0 = (if neg then tl cs else cs)
      in if r0 = [] \<or> \<not> is_digit (hd r0) then None
         else
           let ip = (if hd r0 = 48 then [48] else takeWhile is_digit r0);
               r1 = drop (length ip) r0;
               fp = (case r1 of
                       p # d # _ \<Rightarrow>
                         if p = 46 \<and> is_digit d then p # takeWhile is_digit (tl r1) else []
                     | _ \<Rightarrow> []);
               r2 = drop (length fp) r1;
               ep = (case r2 of
                       e # r \<Rightarrow>
                         if e = 101 \<or> e = 69 then
                           let sg = (if r \<noteq> [] \<and> (hd r = 43 \<or> hd r = 45) then [hd r] else []);
                               ds = takeWhile is_digit (drop (length sg) r)
                           in if ds = [] then [] else e # sg @ ds
                         else []
                     | _ \<Rightarrow> []);
               r3 = drop (length ep) r2
           in if fp = [] \<and> ep = [] then
                (if 4300 < length ip then None
                 else Some (JInt (if neg then - int (dec_value ip) else int (dec_value ip)), r3))
              else Some (JFloat ((if neg then [45] else []) @ ip @ fp @ ep), r3))"

text \<open>
  The scanner: \<open>scan_once\<close> reads one value at the head of the text,
  \<open>parse_object\<close> the members of an object from the quote of a key on,
  \<open>parse_array\<close> the elements of an array. The result is the value and the text
  after it; \<open>None\<close> is a \<open>JSONDecodeError\<close>. The first argument bounds the number
  of nested calls; every call is made on a shorter text, so that the length of the
  text is enough (the recursion limit of the interpreter is not modelled).
\<close>

fun scan_once :: "nat \<Rightarrow> pystr \<Rightarrow> (json \<times> pystr) option"
  and parse_object :: "nat \<Rightarrow> (pystr \<times> json) list \<Rightarrow> pystr \<Rightarrow> (json \<times> pystr) option"
  and parse_array :: "nat \<Rightarrow> json list \<Rightarrow> pystr \<Rightarrow> (json \<times> pystr) option"
where
  "scan_once 0 cs = None"
| "scan_once (Suc n) [] = None"
| "scan_once (Suc n) (c # cs) =
     (if c = 34 then map_option (\<lambda>(s, r). (JStr s, r)) (scanstring cs)
      else if c = 123 then
        (case skip_ws cs of
           [] \<Rightarrow> None
         | d # r \<Rightarrow> if d = 125 then Some (JObj [], r) else parse_object n [] (d # r))
      else if c = 91 then
        (case skip_ws cs of
           [] \<Rightarrow> None
         | d # r \<Rightarrow> if d = 93 then Some (JArr [], r) else parse_array n [] (d # r))
      else if startswith (c # cs) (str ''null'') then Some (JNull, drop 3 cs)
      else if startswith (c # cs) (str ''true'') then Some (JBool True, drop 3 cs)
      else if startswith (c # cs) (str ''false'') then Some (JBool False, drop 4 cs)
      else if startswith (c # cs) (str ''NaN'') then Some (JFloat (str ''NaN''), drop 2 cs)
      else if startswith (c # cs) (str ''Infinity'')
        then Some (JFloat (str ''Infinity''), drop 7 cs)
      else if startswith (c # cs) (str ''-Infinity'')
        then Some (JFloat (str ''-Infinity''), drop 8 cs)
      else match_number (c # cs))"
| "parse_object 0 acc cs = None"
| "parse_object (Suc n) acc [] = None"
| "parse_object (Suc n) acc (c # cs) =
     (if c \<noteq> 34 then None
      else
        (case scanstring cs of
           None \<Rightarrow> None
         | Some (k, r1) \<Rightarrow>
             (case skip_ws r1 of
                [] \<Rightarrow> None
              | d # r2 \<Rightarrow>
                  if d \<noteq> 58 then None
                  else
                    (case scan_once n (skip_ws r2) of
                       None \<Rightarrow> None
                     | Some (v, r3) \<Rightarrow>
                         (case skip_ws r3 of
                            [] \<Rightarrow> None
                          | e # r4 \<Rightarrow>
                              if e = 125 then Some (JObj (dict_set acc k v), r4)
                              else if e = 44
                              then parse_object n (dict_set acc k v) (skip_ws r4)
                              else None)))))"
| "parse_array 0 acc cs = None"
| "parse_array (Suc n) acc cs =
     (case scan_once n cs of
        None \<Rightarrow> None
      | Some (v, r1) \<Rightarrow>
          (case skip_ws r1 of
             [] \<Rightarrow> None
           | e # r2 \<Rightarrow>
               if e = 93 then Some (JArr (acc @ [v]), r2)
               else if e = 44 then parse_array n (acc @ [v]) (skip_ws r2)
               else None))"

text \<open>
  \<open>json.loads\<close> of a \<open>str\<close>: a byte order mark is refused, white space may
  surround the value, nothing else may follow it. \<open>None\<close>: it raises.
\<close>

definition json_loads :: "pystr \<Rightarrow> json option" where
  "json_loads s =
     (if startswith s [65279] then None
      else
        (case scan_once (Suc (length s)) (skip_ws s) of
           None \<Rightarrow> None
         | Some (v, rest) \<Rightarrow> if skip_ws rest = [] then Some v else None))"

section \<open>Framing Codec\<close>

text \<open>
  \<open>read_message\<close>, on the bytes that standard input still holds.
  \<open>sys.stdin.buffer.read(n)\<close> returns the next \<open>n\<close> bytes, or all that are left
  when there are fewer. The result \<open>None\<close> is Python's \<open>None\<close> at end of input.
\<close>

definition read_message :: "byteorder \<Rightarrow> bytes \<Rightarrow> exn + json option" where
  "read_message bo stdin =
     (let raw_length = take 4 stdin
      in if raw_length = [] then Inr None
         else
           (case struct_unpack bo raw_length of
              Inl e \<Rightarrow> Inl e
            | Inr message_length \<Rightarrow>
                (case utf8_decode (take message_length (drop 4 stdin)) of
                   Inl e \<Rightarrow> Inl e
                 | Inr message \<Rightarrow>
                     (case json_loads message of
                        None \<Rightarrow> Inl JSONDecodeError
                      | Some v \<Rightarrow> Inr (Some v)))))"

text \<open>\<open>send_message\<close>: the bytes written to standard output.\<close>

definition send_message :: "(pystr \<Rightarrow> pystr) \<Rightarrow> byteorder \<Rightarrow> json \<Rightarrow> exn + bytes" where
  "send_message fr bo message =
     (case utf8_encode (json_dumps fr message) of
        Inl e \<Rightarrow> Inl e
      | Inr encoded \<Rightarrow>
          (case struct_pack bo (length encoded) of
             Inl e \<Rightarrow> Inl e
           | Inr prefix \<Rightarrow> Inr (prefix @ encoded)))"

text \<open>
  A Response, \<open>{success: bool, error: optional string}\<close>, as the dictionary that
  is written; \<open>send_error\<close> and \<open>send_success\<close> below build two of them.
\<close>

definition response :: "bool \<Rightarrow> pystr option \<Rightarrow> json" where
  "response ok err =
     JObj ((str ''success'', JBool ok) #
           (case err of None \<Rightarrow> [] | Some e \<Rightarrow> [(str ''error'', JStr e)]))"

definition error_response :: "pystr \<Rightarrow> json" where
  "error_response error_msg =
     JObj [(str ''success'', JBool False), (str ''error'', JStr error_msg)]"

definition success_response :: json where
  "success_response = JObj [(str ''success'', JBool True)]"

definition send_error :: "(pystr \<Rightarrow> pystr) \<Rightarrow> byteorder \<Rightarrow> pystr \<Rightarrow> exn + bytes" where
  "send_error fr bo error_msg = send_message fr bo (error_response error_msg)"

definition send_success :: "(pystr \<Rightarrow> pystr) \<Rightarrow> byteorder \<Rightarrow> exn + bytes" where
  "send_success fr bo = send_message fr bo success_response"

section \<open>The environment\<close>

text \<open>
  What the program takes from outside itself: the platform, the parts of the standard
  library that are not modelled above, the file system, the network, the converter
  and the mail transport. Every result is a parameter, so that what is proved holds
  for all of them.
\<close>

type_synonym attrs = "(pystr \<times> pystr option) list"
type_synonym starttag = "pystr \<times> attrs"

datatype fetch_result =
    Fetched
  | FailedBeforeOpen exn
  | FailedAfterOpen exn

datatype pandoc_result =
    Completed int pystr
  | PandocRaised exn

record env =
  byteorder :: byteorder
  float_repr :: "pystr \<Rightarrow> pystr"
  float_truthy :: "pystr \<Rightarrow> bool"
  py_str :: "json \<Rightarrow> pystr"
  exc_text :: "exn \<Rightarrow> pystr"
  str_lower :: "pystr \<Rightarrow> pystr"
  html_parse :: "pystr \<Rightarrow> starttag list \<times> exn option"
  urljoin :: "pystr \<Rightarrow> pystr \<Rightarrow> exn + pystr"
  urlparse_path :: "pystr \<Rightarrow> exn + pystr"
  md5 :: "bytes \<Rightarrow> 128 word"
  load_config :: "exn + (pystr \<times> json) list"
  mkdtemp :: "exn + pystr"
  mktemp :: pystr
  fetch :: "nat \<Rightarrow> pystr \<Rightarrow> fetch_result"
  write_html :: "exn option"
  pandoc :: "pystr list \<Rightarrow> pandoc_result"
  pandoc_output :: bool
  send_email :: "exn option"

text \<open>
  \<^item> \<open>byteorder\<close>: the native byte order.
  \<^item> \<open>float_repr\<close>, \<open>float_truthy\<close>: \<open>repr\<close> and \<open>bool\<close> of the float with a
    given literal. \<open>py_str\<close>: \<open>str\<close> of a value that is not a \<open>str\<close>.
    \<open>exc_text\<close>: \<open>str(e)\<close> of an exception whose text is not modelled.
    \<open>str_lower\<close>: \<open>str.lower\<close> of a string with characters outside ASCII.
  \<^item> \<open>html_parse\<close>: the start tags that \<open>HTMLParser.feed\<close> reports for a text, with
    their attributes (names in lower case, values unescaped, \<open>None\<close> for an attribute
    without a value), and the exception with which \<open>feed\<close> ends, if it does.
  \<^item> \<open>urljoin\<close>, \<open>urlparse_path\<close> (the \<open>path\<close> of \<open>urlparse\<close>) and \<open>md5\<close> (the
    digest, as a number of 128 bits): the library functions; the first two can raise.
  \<^item> \<open>load_config\<close>, \<open>mkdtemp\<close>, \<open>mktemp\<close>: the result of the call.
  \<^item> \<open>fetch i url\<close>: how the \<open>i\<close>-th download goes, from building the request to
    writing the file: done, failed before the file was opened for writing, or after.
  \<^item> \<open>write_html\<close>: the exception raised when the document is written, if any.
  \<^item> \<open>pandoc\<close>: how \<open>subprocess.run\<close> of the command ends; \<open>pandoc_output\<close>: whether
    it leaves a file at the output path. \<open>send_email\<close>: the exception of the
    delivery, if any.
\<close>

text \<open>
  The state: the paths that exist in the file system, and the effects so far, in order.
\<close>

datatype event =
    EvMkdtemp pystr
  | EvFetch pystr
  | EvWrite pystr pystr
  | EvPandoc "pystr list"
  | EvRmtree pystr
  | EvSendEmail
  | EvRemove pystr
  | EvStdout bytes
  | EvUncaught exn

record state =
  fs :: "pystr set"
  trace :: "event list"

definition log :: "event \<Rightarrow> state \<Rightarrow> state" where
  "log ev st = st\<lparr>trace := trace st @ [ev]\<rparr>"

definition create :: "pystr \<Rightarrow> state \<Rightarrow> state" where
  "create path st = st\<lparr>fs := insert path (fs st)\<rparr>"

text \<open>\<open>os.path.join(a, b)\<close> on POSIX.\<close>

definition path_join :: "pystr \<Rightarrow> pystr \<Rightarrow> pystr" where
  "path_join a b =
     (if startswith b (str ''/'') then b
      else if a = [] \<or> last a = 47 then a @ b
      else a @ str ''/'' @ b)"

text \<open>
  \<open>shutil.rmtree(d, ignore_errors=True)\<close>: the directory and all that is in it are
  gone.
\<close>

definition inside :: "pystr \<Rightarrow> pystr \<Rightarrow> bool" where
  "inside d path \<longleftrightarrow> path = d \<or> startswith path (d @ str ''/'')"

definition rmtree :: "pystr \<Rightarrow> state \<Rightarrow> state" where
  "rmtree d st = log (EvRmtree d) (st\<lparr>fs := {path \<in> fs st. \<not> inside d path}\<rparr>)"

section \<open>Python values\<close>

text \<open>\<open>bool(x)\<close> and \<open>type(x).__name__\<close> of a value from \<open>json.loads\<close>.\<close>

definition py_truthy :: "env \<Rightarrow> json \<Rightarrow> bool" where
  "py_truthy env j =
     (case j of
        JNull \<Rightarrow> False
      | JBool b \<Rightarrow> b
      | JInt i \<Rightarrow> i \<noteq> 0
      | JFloat l \<Rightarrow> float_truthy env l
      | JStr s \<Rightarrow> s \<noteq> []
      | JArr xs \<Rightarrow> xs \<noteq> []
      | JObj kvs \<Rightarrow> kvs \<noteq> [])"

definition type_name :: "json \<Rightarrow> pystr" where
  "type_name j =
     (case j of
        JNull \<Rightarrow> str ''NoneType''
      | JBool b \<Rightarrow> str ''bool''
      | JInt i \<Rightarrow> str ''int''
      | JFloat l \<Rightarrow> str ''float''
      | JStr s \<Rightarrow> str ''str''
      | JArr xs \<Rightarrow> str ''list''
      | JObj kvs \<Rightarrow> str ''dict'')"

text \<open>A value in an f-string.\<close>

definition fmt :: "env \<Rightarrow> json \<Rightarrow> pystr" where
  "fmt env j = (case j of JStr s \<Rightarrow> s | _ \<Rightarrow> py_str env j)"

text \<open>\<open>str(e)\<close>.\<close>

definition exn_str :: "env \<Rightarrow> exn \<Rightarrow> pystr" where
  "exn_str env e =
     (case e of
        AttributeError m \<Rightarrow> m
      | TypeError m \<Rightarrow> m
      | ValueError m \<Rightarrow> m
      | RuntimeError m \<Rightarrow> m
      | FileNotFoundError m \<Rightarrow> m
      | OSError m \<Rightarrow> m
      | AssertionError m \<Rightarrow> m
      | SMTPException m \<Rightarrow> m
      | _ \<Rightarrow> exc_text env e)"

section \<open>Image Reference Extractor\<close>

definition is_http :: "pystr \<Rightarrow> bool" where
  "is_http s \<longleftrightarrow> startswith s (str ''http://'') \<or> startswith s (str ''https://'')"

text \<open>\<open>urljoin(self.base_url, src)\<close>, for a base that is true: it must be a \<open>str\<close>.\<close>

definition join_base :: "env \<Rightarrow> json \<Rightarrow> pystr \<Rightarrow> exn + pystr" where
  "join_base env base_url src =
     (case base_url of
        JStr b \<Rightarrow> urljoin env b src
      | _ \<Rightarrow> Inl (TypeError (str ''Cannot mix str and non-str arguments'')))"

text \<open>
  \<open>handle_starttag\<close>: \<open>images\<close> is the list so far. \<open>dict(attrs)\<close> keeps the last
  value of a repeated attribute; \<open>get("src", "")\<close> is \<open>""\<close> without the attribute
  and \<open>None\<close> for one without a value, and both are false.
\<close>

definition handle_starttag ::
  "env \<Rightarrow> json \<Rightarrow> pystr list \<Rightarrow> starttag \<Rightarrow> exn + pystr list" where
  "handle_starttag env base_url images t =
     (case t of (tag, attrs) \<Rightarrow>
        if tag = str ''img'' then
          (case map_of (rev attrs) (str ''src'') of
             Some (Some src) \<Rightarrow>
               if src \<noteq> [] \<and> \<not> startswith src (str ''data:'') then
                 (case (if py_truthy env base_url \<and> \<not> is_http src
                        then join_base env base_url src else Inr src) of
                    Inl e \<Rightarrow> Inl e
                  | Inr src' \<Rightarrow> if is_http src' then Inr (images @ [src']) else Inr images)
               else Inr images
           | _ \<Rightarrow> Inr images)
        else Inr images)"

fun feed_tags :: "env \<Rightarrow> json \<Rightarrow> pystr list \<Rightarrow> starttag list \<Rightarrow> exn + pystr list" where
  "feed_tags env base_url images [] = Inr images"
| "feed_tags env base_url images (t # ts) =
     (case handle_starttag env base_url images t of
        Inl e \<Rightarrow> Inl e
      | Inr images' \<Rightarrow> feed_tags env base_url images' ts)"

text \<open>
  \<open>ImageExtractor(base_url)\<close>, \<open>feed(html_content)\<close> and the list \<open>images\<close>. The
  start tags are handled in order, an exception of \<open>feed\<close> itself comes after the tags
  it has reported.
\<close>

definition extract_images :: "env \<Rightarrow> pystr \<Rightarrow> json \<Rightarrow> exn + pystr list" where
  "extract_images env html base_url =
     (case feed_tags env base_url [] (fst (html_parse env html)) of
        Inl e \<Rightarrow> Inl e
      | Inr images \<Rightarrow>
          (case snd (html_parse env html) of
             Some e \<Rightarrow> Inl e
           | None \<Rightarrow> Inr images))"

section \<open>Image Fetcher\<close>

text \<open>\<open>hexdigest()[:12]\<close>: the first twelve of the 32 hexadecimal digits.\<close>

definition url_hash :: "128 word \<Rightarrow> pystr" where
  "url_hash d =
     map (\<lambda>k. hexdigit (unat d div 16 ^ k mod 16)) [31, 30, 29, 28, 27, 26, 25, 24, 23, 22, 21, 20]"

definition is_lower_hex :: "nat \<Rightarrow> bool" where
  "is_lower_hex c \<longleftrightarrow> (48 \<le> c \<and> c \<le> 57) \<or> (97 \<le> c \<and> c \<le> 102)"

text \<open>
  \<open>os.path.splitext(path)[1]\<close>: the text from the last point of the last component
  on, when a character other than a point comes before it in that component.
\<close>

definition splitext_ext :: "pystr \<Rightarrow> pystr" where
  "splitext_ext path =
     (let name = rev (takeWhile (\<lambda>c. c \<noteq> 47) (rev path));
          e = rev (takeWhile (\<lambda>c. c \<noteq> 46) (rev name));
          stem = take (length name - length e - 1) name
      in if 46 \<in> set name \<and> \<not> list_all (\<lambda>c. c = 46) stem then 46 # e else [])"

definition ascii_lower :: "nat \<Rightarrow> nat" where
  "ascii_lower c = (if 65 \<le> c \<and> c \<le> 90 then c + 32 else c)"

definition py_lower :: "env \<Rightarrow> pystr \<Rightarrow> pystr" where
  "py_lower env s = (if list_all (\<lambda>c. c < 128) s then map ascii_lower s else str_lower env s)"

definition recognised :: "pystr list" where
  "recognised = [str ''.jpg'', str ''.jpeg'', str ''.png'', str ''.gif'', str ''.webp'', str ''.svg'']"

text \<open>
  The name of the local file, from the first lines of \<open>download_image\<close>; \<open>None\<close>
  when \<open>url.encode()\<close> or \<open>urlparse(url)\<close> raises.
\<close>

definition local_name :: "env \<Rightarrow> pystr \<Rightarrow> pystr option" where
  "local_name env url =
     (case utf8_encode url of
        Inl e \<Rightarrow> None
      | Inr b \<Rightarrow>
          (case urlparse_path env url of
             Inl e \<Rightarrow> None
           | Inr path \<Rightarrow>
               let ext = py_lower env (splitext_ext path);
                   ext = (if ext \<in> set recognised then ext else str ''.jpg'')
               in Some (str ''img_'' @ url_hash (md5 env b) @ ext)))"

text \<open>
  \<open>download_image\<close>, as the \<open>i\<close>-th download: every exception ends in \<open>None\<close>. The
  file exists from the moment it is opened for writing.
\<close>

definition download_image :: "env \<Rightarrow> nat \<Rightarrow> pystr \<Rightarrow> pystr \<Rightarrow> state \<Rightarrow> pystr option \<times> state" where
  "download_image env i url dest_dir st =
     (case local_name env url of
        None \<Rightarrow> (None, st)
      | Some filename \<Rightarrow>
          (case fetch env i url of
             Fetched \<Rightarrow>
               (Some filename, create (path_join dest_dir filename) (log (EvFetch url) st))
           | FailedAfterOpen e \<Rightarrow>
               (None, create (path_join dest_dir filename) (log (EvFetch url) st))
           | FailedBeforeOpen e \<Rightarrow> (None, log (EvFetch url) st)))"

section \<open>\<open>process_images\<close>\<close>

text \<open>The first loop: the downloads, and the dictionary \<open>replacements\<close>.\<close>

fun download_all ::
  "env \<Rightarrow> pystr \<Rightarrow> nat \<Rightarrow> pystr list \<Rightarrow> (pystr \<times> pystr) list \<Rightarrow> state \<Rightarrow>
   (pystr \<times> pystr) list \<times> state" where
  "download_all env temp_dir i [] replacements st = (replacements, st)"
| "download_all env temp_dir i (img_url # urls) replacements st =
     (case download_image env i img_url temp_dir st of
        (local_file, st') \<Rightarrow>
          download_all env temp_dir (Suc i) urls
            (case local_file of
               None \<Rightarrow> replacements
             | Some f \<Rightarrow> if f \<noteq> [] then dict_set replacements img_url f else replacements)
            st')"

text \<open>
  \<open>feed\<close> of a value that is not a \<open>str\<close> raises a \<open>TypeError\<close> before any tag is
  seen.
\<close>

definition process_images :: "env \<Rightarrow> json \<Rightarrow> json \<Rightarrow> pystr \<Rightarrow> state \<Rightarrow> (exn + pystr) \<times> state" where
  "process_images env html_content base_url temp_dir st =
     (case html_content of
        JStr html \<Rightarrow>
          (case extract_images env html base_url of
             Inl e \<Rightarrow> (Inl e, st)
           | Inr images \<Rightarrow>
               (case download_all env temp_dir 0 images [] st of
                  (replacements, st') \<Rightarrow> (Inr (rewrite_html replacements html), st')))
      | _ \<Rightarrow>
          (Inl (TypeError (str ''can only concatenate str (not \"'' @ type_name html_content @
                           str ''\") to str'')), st))"

section \<open>Document Assembler: \<open>create_epub\<close>\<close>

text \<open>The document shell: the f-string \<open>full_html\<close>; 10 is the line feed.\<close>

definition full_html :: "pystr \<Rightarrow> pystr \<Rightarrow> pystr" where
  "full_html title html_with_local_images =
     str ''<!DOCTYPE html>'' @ [10] @
     str ''<html>'' @ [10] @
     str ''<head>'' @ [10] @
     str ''    <meta charset=\"UTF-8\">'' @ [10] @
     str ''    <title>'' @ title @ str ''</title>'' @ [10] @
     str ''</head>'' @ [10] @
     str ''<body>'' @ [10] @
     str ''    <h1>'' @ title @ str ''</h1>'' @ [10] @
     str ''    '' @ html_with_local_images @ [10] @
     str ''</body>'' @ [10] @
     str ''</html>''"

definition pandoc_cmd :: "pystr \<Rightarrow> pystr \<Rightarrow> pystr \<Rightarrow> pystr \<Rightarrow> pystr list" where
  "pandoc_cmd html_path output_path title temp_dir =
     [str ''pandoc'', html_path, str ''-o'', output_path, str ''--standalone'',
      str ''-f'', str ''html'', str ''-t'', str ''epub'',
      str ''--metadata=title:'' @ title,
      str ''--resource-path='' @ temp_dir]"

text \<open>The body of the \<open>try\<close> statement of \<open>create_epub\<close>.\<close>

definition epub_body ::
  "env \<Rightarrow> json \<Rightarrow> json \<Rightarrow> json \<Rightarrow> pystr \<Rightarrow> pystr \<Rightarrow> state \<Rightarrow> (exn + pystr) \<times> state" where
  "epub_body env title html_content base_url output_path temp_dir st =
     (case process_images env html_content base_url temp_dir st of
        (Inl e, st1) \<Rightarrow> (Inl e, st1)
      | (Inr html_with_local_images, st1) \<Rightarrow>
          let html_path = path_join temp_dir (str ''article.html'')
          in (case write_html env of
                Some e \<Rightarrow> (Inl e, st1)
              | None \<Rightarrow>
                  let st2 = create html_path
                        (log (EvWrite html_path (full_html (fmt env title) html_with_local_images))
                           st1);
                      cmd = pandoc_cmd html_path output_path (fmt env title) temp_dir;
                      st3 = log (EvPandoc cmd) st2;
                      st4 = (if pandoc_output env then create output_path st3 else st3)
                  in (case pandoc env cmd of
                        PandocRaised e \<Rightarrow> (Inl e, st4)
                      | Completed returncode stderr \<Rightarrow>
                          if returncode \<noteq> 0
                          then (Inl (RuntimeError (str ''pandoc failed: '' @ stderr)), st4)
                          else (Inr output_path, st4))))"

text \<open>
  \<open>create_epub\<close>: the directory is made before the \<open>try\<close> statement, whose
  \<open>finally\<close> clause removes it whatever the body does.
\<close>

definition create_epub ::
  "env \<Rightarrow> json \<Rightarrow> json \<Rightarrow> json \<Rightarrow> pystr \<Rightarrow> state \<Rightarrow> (exn + pystr) \<times> state" where
  "create_epub env title html_content base_url output_path st =
     (case mkdtemp env of
        Inl e \<Rightarrow> (Inl e, st)
      | Inr temp_dir \<Rightarrow>
          (case epub_body env title html_content base_url output_path temp_dir
                  (create temp_dir (log (EvMkdtemp temp_dir) st)) of
             (r, st') \<Rightarrow> (r, rmtree temp_dir st')))"

section \<open>Pipeline Orchestrator: \<open>main\<close>\<close>

text \<open>
  A call of \<open>send_message\<close>: the bytes go to standard output; an exception of the
  call itself is not caught by anything.
\<close>

definition emit :: "env \<Rightarrow> json \<Rightarrow> state \<Rightarrow> state" where
  "emit env message st =
     (case send_message (float_repr env) (byteorder env) message of
        Inl e \<Rightarrow> log (EvUncaught e) st
      | Inr b \<Rightarrow> log (EvStdout b) st)"

text \<open>The \<open>except\<close> clauses, in their order.\<close>

definition handle :: "env \<Rightarrow> exn \<Rightarrow> state \<Rightarrow> state" where
  "handle env e st =
     emit env
       (error_response
          (case e of
             FileNotFoundError m \<Rightarrow> m
           | TimeoutExpired \<Rightarrow> str ''pandoc timed out - article may be too large''
           | SMTPAuthenticationError \<Rightarrow>
               str ''SMTP authentication failed - check your App Password''
           | SMTPException m \<Rightarrow> str ''Email failed: '' @ m
           | _ \<Rightarrow> str ''Unexpected error: '' @ exn_str env e))
       st"

text \<open>The \<open>finally\<close> clause, once \<open>temp_epub\<close> is set.\<close>

definition cleanup :: "pystr \<Rightarrow> state \<Rightarrow> state" where
  "cleanup temp_epub st =
     (if temp_epub \<noteq> [] \<and> temp_epub \<in> fs st
      then log (EvRemove temp_epub) (st\<lparr>fs := fs st - {temp_epub}\<rparr>)
      else st)"

text \<open>\<open>message.get(key, default)\<close>.\<close>

definition get_default :: "(pystr \<times> json) list \<Rightarrow> pystr \<Rightarrow> json \<Rightarrow> json" where
  "get_default d key dflt = (case dict_get d key of None \<Rightarrow> dflt | Some v \<Rightarrow> v)"

text \<open>
  The text of the \<open>AttributeError\<close> of \<open>message.get\<close> on a value that is not a
  dictionary; 39 is the single quote.
\<close>

definition no_get :: "json \<Rightarrow> pystr" where
  "no_get message =
     [39] @ type_name message @ [39] @ str '' object has no attribute '' @ [39] @
     str ''get'' @ [39]"

text \<open>
  \<open>main\<close>, on the bytes of standard input, from a state of the file system to the
  state when it returns.
\<close>

definition main :: "env \<Rightarrow> bytes \<Rightarrow> state \<Rightarrow> state" where
  "main env stdin st =
     (case read_message (byteorder env) stdin of
        Inl e \<Rightarrow> handle env e st
      | Inr None \<Rightarrow> emit env (error_response (str ''No message received'')) st
      | Inr (Some message) \<Rightarrow>
          if \<not> py_truthy env message
          then emit env (error_response (str ''No message received'')) st
          else
            (case message of
               JObj d \<Rightarrow>
                 let title = get_default d (str ''title'') (JStr (str ''Untitled''));
                     content = get_default d (str ''content'') (JStr []);
                     url = get_default d (str ''url'') (JStr [])
                 in if \<not> py_truthy env content
                    then emit env (error_response (str ''No content provided'')) st
                    else
                      (case load_config env of
                         Inl e \<Rightarrow> handle env e st
                       | Inr config \<Rightarrow>
                           let temp_epub = mktemp env
                           in (case create_epub env title content url temp_epub st of
                                 (Inl e, st1) \<Rightarrow> cleanup temp_epub (handle env e st1)
                               | (Inr epub_path, st1) \<Rightarrow>
                                   (case send_email env of
                                      Some e \<Rightarrow>
                                        cleanup temp_epub (handle env e (log EvSendEmail st1))
                                    | None \<Rightarrow>
                                        cleanup temp_epub
                                          (emit env success_response (log EvSendEmail st1)))))
             | _ \<Rightarrow> handle env (AttributeError (no_get message)) st))"

section \<open>An environment for the examples\<close>

text \<open>
  The library functions by their values, as CPython 3.11 computes them, at the
  arguments that occur in the examples below; elsewhere the choice is arbitrary. The
  first download succeeds, the later ones fail; the converter runs into its timeout.
\<close>

definition example_tags :: "pystr \<Rightarrow> starttag list \<times> exn option" where
  "example_tags html =
     (if html = str ''<img src=\"//[\">''
      then ([(str ''img'', [(str ''src'', Some (str ''//[''))])], None)
      else if html = str ''<img src=\"/a.png\">''
      then ([(str ''img'', [(str ''src'', Some (str ''/a.png''))])], None)
      else if html = str ''<img src=\"http://x/a.png\"><img src=\"http://x/a.png?w=2\">''
      then ([(str ''img'', [(str ''src'', Some (str ''http://x/a.png''))]),
             (str ''img'', [(str ''src'', Some (str ''http://x/a.png?w=2''))])], None)
      else ([], None))"

definition example_urljoin :: "pystr \<Rightarrow> pystr \<Rightarrow> exn + pystr" where
  "example_urljoin base url =
     (if url = str ''//['' then Inl (ValueError (str ''Invalid IPv6 URL''))
      else if base = str ''https://site.example/article'' \<and> url = str ''/a.png''
      then Inr (str ''https://site.example/a.png'')
      else Inr url)"

definition example_path :: "pystr \<Rightarrow> exn + pystr" where
  "example_path url =
     (if url = str ''http://x/A.PNG'' then Inr (str ''/A.PNG'') else Inr (str ''/a.png''))"

definition example_md5 :: "bytes \<Rightarrow> 128 word" where
  "example_md5 b =
     (if map unat b = str ''http://x/A.PNG'' then 288855241692690597777355649173778383735
      else if map unat b = str ''http://x/a.png'' then 283014883143461215924837479922407597666
      else if map unat b = str ''http://x/a.png?w=2''
      then 174989582545693865248253270994739213126
      else 260631973330430937026813362479942998484)"

definition example_fetch :: "nat \<Rightarrow> pystr \<Rightarrow> fetch_result" where
  "example_fetch i url =
     (if i = 0 then Fetched else FailedBeforeOpen (OSError (str ''timed out'')))"

definition example_pandoc :: "pystr list \<Rightarrow> pandoc_result" where
  "example_pandoc cmd = PandocRaised TimeoutExpired"

definition example_text :: "exn \<Rightarrow> pystr" where
  "example_text e = []"

definition example_str :: "json \<Rightarrow> pystr" where
  "example_str j = []"

definition example_truthy :: "pystr \<Rightarrow> bool" where
  "example_truthy l = True"

definition example_env :: env where
  "example_env =
     \<lparr>byteorder = LittleEndian, float_repr = id, float_truthy = example_truthy,
      py_str = example_str, exc_text = example_text, str_lower = id,
      html_parse = example_tags, urljoin = example_urljoin, urlparse_path = example_path,
      md5 = example_md5, load_config = Inr [], mkdtemp = Inr (str ''/tmp/kindle_beam_w''),
      mktemp = str ''/tmp/kindle_beam_e.epub'', fetch = example_fetch, write_html = None,
      pandoc = example_pandoc, pandoc_output = False, send_email = None\<rparr>"

section \<open>Properties of the length prefix\<close>

lemma length_native_bytes: "length (native_bytes bo n) = 4"
  by (cases bo) (simp_all add: native_bytes_def le_bytes_def)

lemma le_value_le_bytes:
  assumes "n < 4294967296"
  shows "le_value (le_bytes n) = n"
proof -
  define a where "a = n div 256"
  define b where "b = a div 256"
  define c where "c = b div 256"
  have n: "n = n mod 256 + 256 * a" by (simp add: a_def)
  have a: "a = a mod 256 + 256 * b" by (simp add: b_def)
  have b: "b = b mod 256 + 256 * c" by (simp add: c_def)
  have c: "c < 256"
    using assms by (simp add: a_def b_def c_def div_mult2_eq less_mult_imp_div_less)
  have e1: "n div 65536 = b" by (simp add: a_def b_def div_mult2_eq)
  have e2: "n div 16777216 = c" by (simp add: a_def b_def c_def div_mult2_eq)
  have "le_value (le_bytes n) =
          n mod 256 + 256 * (a mod 256 + 256 * (b mod 256 + 256 * (c mod 256)))"
    by (simp add: le_value_def le_bytes_def unat_of_nat e1 e2 a_def [symmetric])
  also have "\<dots> = n" using n a b c by simp
  finally show ?thesis .
qed

lemma unpack_native: "n < 4294967296 \<Longrightarrow> struct_unpack bo (native_bytes bo n) = Inr n"
proof (cases bo)
  case LittleEndian
  assume "n < 4294967296"
  then show ?thesis using LittleEndian
    by (simp add: struct_unpack_def native_bytes_def le_value_le_bytes) (simp add: le_bytes_def)
next
  case BigEndian
  assume "n < 4294967296"
  then show ?thesis using BigEndian
    by (simp add: struct_unpack_def native_bytes_def le_value_le_bytes) (simp add: le_bytes_def)
qed

section \<open>Framing Codec: reading\<close>

text \<open>
  After a well-formed prefix that declares \<open>n\<close> bytes, \<open>read_message\<close> decodes and
  parses the next \<open>n\<close> bytes, or what is there.
\<close>

lemma read_framed:
  assumes "n < 4294967296"
  shows "read_message bo (native_bytes bo n @ body) =
     (case utf8_decode (take n body) of
        Inl e \<Rightarrow> Inl e
      | Inr message \<Rightarrow>
          (case json_loads message of
             None \<Rightarrow> Inl JSONDecodeError
           | Some v \<Rightarrow> Inr (Some v)))"
proof -
  have l: "length (native_bytes bo n) = 4" by (rule length_native_bytes)
  then have ne: "native_bytes bo n \<noteq> []" by auto
  have t: "take 4 (native_bytes bo n @ body) = native_bytes bo n" using l by simp
  have d: "drop 4 (native_bytes bo n @ body) = body" using l by simp
  show ?thesis
    unfolding read_message_def Let_def t d using ne unpack_native [OF assms, of bo] by simp
qed

lemmas json_eval =
  str_def scanstring.simps cons_str_def scan_hex4_def unhex_def unescape_def json_loads_def
  skip_ws_def json_ws_def match_number_def is_digit_def dec_value_def dict_set_def

text \<open>
  C3, as the claim states it, fails: a prefix that declares 100 bytes, followed by the
  15 bytes of \<open>{"content":"x"}\<close> and the end of input, is read as that message,
  with no error.
\<close>

theorem read_message_short_read_accepted:
  "length [123, 34, 99, 111, 110, 116, 101, 110, 116, 34, 58, 34, 120, 34, 125 :: 8 word] < 100 \<and>
   read_message LittleEndian
     (native_bytes LittleEndian 100 @
      [123, 34, 99, 111, 110, 116, 101, 110, 116, 34, 58, 34, 120, 34, 125]) =
   Inr (Some (JObj [(str ''content'', JStr (str ''x''))]))"
  by (simp add: read_message_def native_bytes_def le_bytes_def struct_unpack_def le_value_def
      utf8_decode_def json_eval)

text \<open>
  C3, amended: at end of input before any byte, \<open>read_message\<close> returns \<open>None\<close> and
  raises nothing. When the prefix declares \<open>L\<close> bytes and no more than \<open>L\<close> bytes
  follow, the bytes that are there are decoded and parsed as the message: the call
  fails only when they are not UTF-8 or not JSON, with the error of the decoder or of
  the parser, and returns the parsed value otherwise. The declared length is not
  compared with the number of bytes read.
\<close>

theorem read_message_short_read:
  "read_message bo [] = Inr None \<and>
   (L < 4294967296 \<longrightarrow> length body \<le> L \<longrightarrow>
    read_message bo (native_bytes bo L @ body) =
      (case utf8_decode body of
         Inl e \<Rightarrow> Inl e
       | Inr message \<Rightarrow>
           (case json_loads message of
              None \<Rightarrow> Inl JSONDecodeError
            | Some v \<Rightarrow> Inr (Some v))))"
  by (simp add: read_framed) (simp add: read_message_def)

theorem read_message_short_read_witness:
  "(7::nat) < 4294967296 \<and> length [34, 97, 98, 34 :: 8 word] \<le> 7 \<and>
   read_message BigEndian [] = Inr None \<and>
   read_message BigEndian (native_bytes BigEndian 7 @ [34, 97, 98, 34]) =
     Inr (Some (JStr (str ''ab'')))"
  using read_message_short_read [of BigEndian 7 "[34, 97, 98, 34]"]
  by (simp add: utf8_decode_def json_eval)

section \<open>JSON: a string is read back from its encoding\<close>

lemma unhex_hexdigit: "d < 16 \<Longrightarrow> unhex (hexdigit d) = Some d"
  by (simp add: unhex_def hexdigit_def)

lemma length_hex4: "length (hex4 n) = 4"
  by (simp add: hex4_def)

lemma scan_hex4_hex4:
  assumes "n < 65536"
  shows "scan_hex4 (hex4 n @ rest) = Some n"
proof -
  define a where "a = n div 16"
  define b where "b = a div 16"
  define c where "c = b div 16"
  have n: "n = n mod 16 + 16 * a" by (simp add: a_def)
  have a: "a = a mod 16 + 16 * b" by (simp add: b_def)
  have b: "b = b mod 16 + 16 * c" by (simp add: c_def)
  have c: "c < 16"
    using assms by (simp add: a_def b_def c_def div_mult2_eq less_mult_imp_div_less)
  have e1: "n div 256 = b" by (simp add: a_def b_def div_mult2_eq)
  have e2: "n div 4096 = c" by (simp add: a_def b_def c_def div_mult2_eq)
  have "scan_hex4 (hex4 n @ rest) =
          Some (((c mod 16 * 16 + b mod 16) * 16 + a mod 16) * 16 + n mod 16)"
    by (simp add: scan_hex4_def hex4_def unhex_hexdigit e1 e2 a_def [symmetric])
  also have "((c mod 16 * 16 + b mod 16) * 16 + a mod 16) * 16 + n mod 16 = n"
    using n a b c by simp
  finally show ?thesis .
qed

lemma scan_short:
  assumes "unescape e = Some ch" "e \<noteq> 117"
  shows "scanstring (92 # e # X) = cons_str ch (scanstring X)"
  using assms by (simp add: scanstring.simps)

lemma scan_plain:
  assumes "32 \<le> c" "c \<noteq> 34" "c \<noteq> 92"
  shows "scanstring (c # X) = cons_str c (scanstring X)"
  using assms by (simp add: scanstring.simps)

lemma scan_u:
  assumes "c < 65536" "\<not> (55296 \<le> c \<and> c \<le> 56319)"
  shows "scanstring (92 # 117 # hex4 c @ X) = cons_str c (scanstring X)"
  using assms by (cases "55296 \<le> c") (simp_all add: scanstring.simps scan_hex4_hex4 length_hex4)

lemma scan_pair:
  assumes "65536 \<le> c" "c < 1114112"
  shows "scanstring (92 # 117 # hex4 (55296 + (c - 65536) div 1024) @
            92 # 117 # hex4 (56320 + (c - 65536) mod 1024) @ X) = cons_str c (scanstring X)"
proof -
  define hi where "hi = 55296 + (c - 65536) div 1024"
  define lo where "lo = 56320 + (c - 65536) mod 1024"
  have hi: "55296 \<le> hi" "hi \<le> 56319" "hi < 65536" using assms by (simp_all add: hi_def)
  have lo: "56320 \<le> lo" "lo \<le> 57343" "lo < 65536" by (simp_all add: lo_def)
  have j: "65536 + (hi - 55296) * 1024 + (lo - 56320) = c"
    using assms by (simp add: hi_def lo_def)
  have "scanstring (92 # 117 # hex4 hi @ 92 # 117 # hex4 lo @ X) = cons_str c (scanstring X)"
    using hi lo j by (simp add: scanstring.simps scan_hex4_hex4 length_hex4)
  then show ?thesis by (simp add: hi_def lo_def)
qed

lemma scan_escape_char:
  assumes "scalar c"
  shows "scanstring (escape_char c @ X) = cons_str c (scanstring X)"
proof -
  consider (special) "c = 34 \<or> c = 92 \<or> c = 10 \<or> c = 13 \<or> c = 9 \<or> c = 8 \<or> c = 12"
    | (plain) "32 \<le> c" "c \<le> 126" "c \<noteq> 34" "c \<noteq> 92"
    | (low) "c < 32" "c \<noteq> 10" "c \<noteq> 13" "c \<noteq> 9" "c \<noteq> 8" "c \<noteq> 12"
    | (bmp) "126 < c" "c < 65536"
    | (astral) "65536 \<le> c"
    by linarith
  then show ?thesis
  proof cases
    case special
    then show ?thesis
      by (auto simp add: escape_char_def str_def scan_short unescape_def)
  next
    case plain
    then show ?thesis by (simp add: escape_char_def scan_plain)
  next
    case low
    then show ?thesis by (simp add: escape_char_def str_def scan_u)
  next
    case bmp
    moreover have "\<not> (55296 \<le> c \<and> c \<le> 56319)" using assms by (auto simp add: scalar_def)
    ultimately show ?thesis by (simp add: escape_char_def str_def scan_u)
  next
    case astral
    then show ?thesis using assms
      by (simp add: escape_char_def str_def scan_pair scalar_def)
  qed
qed

lemma scanstring_escape:
  "\<forall>c\<in>set s. scalar c \<Longrightarrow> scanstring (escape s @ 34 # rest) = Some (s, rest)"
proof (induction s)
  case Nil
  show ?case by (simp add: escape_def scanstring.simps)
next
  case (Cons c s)
  then have "scanstring (escape s @ 34 # rest) = Some (s, rest)" by simp
  moreover have "scalar c" using Cons.prems by simp
  ultimately show ?case
    using scan_escape_char [of c "escape s @ 34 # rest"] by (simp add: escape_def cons_str_def)
qed

lemma error_response_eq: "error_response e = response False (Some e)"
  by (simp add: error_response_def response_def)

lemma success_response_eq: "success_response = response True None"
  by (simp add: success_response_def response_def)

lemma dumps_response:
  "json_dumps fr (response ok err) =
     str ''{\"success\": '' @ (if ok then str ''true'' else str ''false'') @
     (case err of None \<Rightarrow> [] | Some e \<Rightarrow> str '', \"error\": \"'' @ escape e @ str ''\"'') @
     str ''}''"
  by (cases err) (simp_all add: response_def quoted_def str_def escape_def escape_char_def)

lemma scan_response:
  assumes "\<forall>e\<in>set_option err. \<forall>c\<in>set e. scalar c"
  shows "scan_once (Suc (Suc (Suc (Suc k)))) (json_dumps fr (response ok err)) =
           Some (response ok err, [])"
proof (cases err)
  case None
  then show ?thesis
    unfolding dumps_response
    by (cases ok) (simp_all add: str_def scanstring.simps cons_str_def skip_ws_def json_ws_def
        response_def dict_set_def)
next
  case (Some e)
  then have "\<forall>c\<in>set e. scalar c" using assms by simp
  then have s: "scanstring (escape e @ [34, 125]) = Some (e, [125])"
    using scanstring_escape [of e "[125]"] by simp
  show ?thesis
    unfolding dumps_response Some
    by (cases ok) (simp_all add: str_def scanstring.simps cons_str_def skip_ws_def json_ws_def s
        response_def dict_set_def)
qed

lemma loads_response:
  assumes "\<forall>e\<in>set_option err. \<forall>c\<in>set e. scalar c"
  shows "json_loads (json_dumps fr (response ok err)) = Some (response ok err)"
proof -
  define t where "t = json_dumps fr (response ok err)"
  obtain r where r: "t = 123 # 34 # 115 # r"
    by (simp add: t_def dumps_response str_def)
  then have f: "Suc (length t) = Suc (Suc (Suc (Suc (length r))))" by simp
  have "scan_once (Suc (length t)) t = Some (response ok err, [])"
    unfolding f unfolding t_def by (rule scan_response [OF assms])
  moreover have "skip_ws t = t" "\<not> startswith t [65279]"
    by (simp_all add: r skip_ws_def json_ws_def)
  ultimately show ?thesis
    by (simp add: json_loads_def t_def [symmetric] skip_ws_def)
qed

section \<open>Framing Codec: round trip of a Response\<close>

lemma utf8_encode_nat_ascii: "\<forall>c\<in>set s. c < 128 \<Longrightarrow> utf8_encode_nat s = Some s"
  by (induction s) (simp_all add: utf8_char_def)

lemma utf8_decode_nat_ascii: "\<forall>c\<in>set s. c < 128 \<Longrightarrow> utf8_decode_nat s = Some s"
  by (induction s) simp_all

lemma unat_of_nat_ascii: "\<forall>c\<in>set s. c < 128 \<Longrightarrow> map unat (map of_nat s :: bytes) = s"
  by (induction s) (simp_all add: unat_of_nat)

lemma utf8_encode_ascii: "\<forall>c\<in>set s. c < 128 \<Longrightarrow> utf8_encode s = Inr (map of_nat s)"
  by (simp add: utf8_encode_def utf8_encode_nat_ascii)

lemma utf8_decode_ascii: "\<forall>c\<in>set s. c < 128 \<Longrightarrow> utf8_decode (map of_nat s) = Inr s"
  by (simp add: utf8_decode_def utf8_decode_nat_ascii unat_of_nat_ascii del: map_map)

lemma hexdigit_ascii: "d < 16 \<Longrightarrow> hexdigit d < 128"
  by (simp add: hexdigit_def)

lemma escape_char_ascii: "\<forall>x\<in>set (escape_char c). x < 128"
  by (simp add: escape_char_def str_def hex4_def hexdigit_ascii)

lemma escape_ascii: "\<forall>x\<in>set (escape s). x < 128"
  using escape_char_ascii by (auto simp add: escape_def)

lemma dumps_response_ascii: "\<forall>x\<in>set (json_dumps fr (response ok err)). x < 128"
proof (cases err)
  case None
  then show ?thesis by (simp add: dumps_response str_def)
next
  case (Some e)
  then show ?thesis using escape_ascii [of e] by (auto simp add: dumps_response str_def)
qed

lemma length_escape: "length s \<le> length (escape s)"
proof (induction s)
  case Nil
  show ?case by (simp add: escape_def)
next
  case (Cons c s)
  have "1 \<le> length (escape_char c)" by (simp add: escape_char_def str_def hex4_def)
  with Cons show ?case by (simp add: escape_def)
qed

lemma send_read:
  assumes a: "\<forall>x\<in>set (json_dumps fr m). x < 128"
    and l: "length (json_dumps fr m) < 4294967296"
    and j: "json_loads (json_dumps fr m) = Some m"
  shows "\<exists>out. send_message fr bo m = Inr out \<and> read_message bo out = Inr (Some m)"
proof -
  let ?t = "json_dumps fr m"
  let ?b = "map of_nat ?t :: bytes"
  have s: "send_message fr bo m = Inr (native_bytes bo (length ?t) @ ?b)"
    using l by (simp add: send_message_def utf8_encode_ascii [OF a] struct_pack_def)
  have "read_message bo (native_bytes bo (length ?t) @ ?b) = Inr (Some m)"
    using l by (simp add: read_framed utf8_decode_ascii [OF a] j)
  with s show ?thesis by simp
qed

text \<open>
  C8, amended: for every Response whose error text, when there is one, is Unicode
  text (no surrogate code points) and whose JSON encoding is shorter than \<open>2^32\<close>
  bytes, \<open>send_message\<close> writes bytes from which \<open>read_message\<close> returns a
  dictionary equal to the Response. This holds in either byte order.
\<close>

theorem response_round_trip:
  assumes "\<forall>e\<in>set_option err. \<forall>c\<in>set e. scalar c"
    and "length (json_dumps fr (response ok err)) < 4294967296"
  shows "\<exists>out. send_message fr bo (response ok err) = Inr out \<and>
               read_message bo out = Inr (Some (response ok err))"
  using dumps_response_ascii assms(2) loads_response [OF assms(1)] by (rule send_read)

lemma send_too_long:
  assumes "4294967296 \<le> length e"
  shows "send_message fr bo (response ok (Some e)) = Inl StructError"
proof -
  have "length e \<le> length (json_dumps fr (response ok (Some e)))"
    using length_escape [of e] by (simp add: dumps_response)
  then have "\<not> length (json_dumps fr (response ok (Some e))) < 4294967296"
    using assms by simp
  then show ?thesis
    by (simp add: send_message_def utf8_encode_ascii [OF dumps_response_ascii] struct_pack_def)
qed

text \<open>
  C8, as the claim states it, fails: the length prefix is an unsigned int of four
  bytes, and for a Response whose error text has \<open>2^32\<close> characters
  \<open>struct.pack\<close> raises, so that nothing is written and nothing can be read back.
\<close>

theorem response_round_trip_too_long:
  "send_message id LittleEndian (response False (Some (replicate 4294967296 97))) =
     Inl StructError"
  by (rule send_too_long) (simp only: length_replicate order_refl)

text \<open>C8: the round trip of \<open>{"success": false, "error": "No"}\<close>.\<close>

theorem response_round_trip_witness:
  "list_all scalar (str ''No'') \<and>
   length (json_dumps id (response False (Some (str ''No'')))) < 4294967296 \<and>
   (\<exists>out. send_message id BigEndian (response False (Some (str ''No''))) = Inr out \<and>
          read_message BigEndian out = Inr (Some (response False (Some (str ''No'')))))"
  using response_round_trip [of "Some (str ''No'')" id False BigEndian]
  by (simp add: dumps_response str_def scalar_def escape_def escape_char_def)

section \<open>HTML Rewriter\<close>

lemmas re_eval = str_def match_src_def match_url_def closing_def is_quote_def is_space_def

text \<open>
  C1: with \<open>http://x/a.png\<close> mapped to its local file, the \<open>src\<close> attribute
  whose value is \<open>http://x/a.png?w=2\<close>, which has the mapped URL as a proper prefix,
  is altered: the pattern ends with the URL and an optional quote and is not anchored
  at the end of the attribute value. The rest of the value and its closing quote are
  left behind the replacement.
\<close>

theorem rewrite_alters_longer_src:
  "rewrite_html [(str ''http://x/a.png'', str ''img_d4eaaf0e8567.png'')]
     (str ''<img src=\"http://x/a.png?w=2\">'') =
   str ''<img src=\"img_d4eaaf0e8567.png\"?w=2\">''"
  by (simp add: re_eval)

section \<open>Image Fetcher: the local file name\<close>

lemma hexdigit_lower: "d < 16 \<Longrightarrow> is_lower_hex (hexdigit d)"
  by (simp add: hexdigit_def is_lower_hex_def)

lemma url_hash_shape: "length (url_hash d) = 12 \<and> list_all is_lower_hex (url_hash d)"
  by (simp add: url_hash_def hexdigit_lower)

lemma local_name_shape:
  assumes "local_name env url = Some f"
  shows "\<exists>h ext path. f = str ''img_'' @ h @ ext \<and> length h = 12 \<and> list_all is_lower_hex h \<and>
           ext \<in> set recognised \<and> urlparse_path env url = Inr path \<and>
           ext = (if py_lower env (splitext_ext path) \<in> set recognised
                  then py_lower env (splitext_ext path) else str ''.jpg'')"
proof -
  obtain b where b: "utf8_encode url = Inr b"
    using assms by (auto simp add: local_name_def split: sum.splits)
  obtain path where p: "urlparse_path env url = Inr path"
    using assms b by (auto simp add: local_name_def split: sum.splits)
  define ext where "ext = (if py_lower env (splitext_ext path) \<in> set recognised
                  then py_lower env (splitext_ext path) else str ''.jpg'')"
  have f: "f = str ''img_'' @ url_hash (md5 env b) @ ext"
    using assms b p by (simp add: local_name_def ext_def Let_def)
  have r: "ext \<in> set recognised" by (simp add: ext_def) (simp add: recognised_def)
  show ?thesis using f r p url_hash_shape [of "md5 env b"] ext_def by blast
qed

lemma local_name_library:
  assumes "md5 env' = md5 env" "urlparse_path env' = urlparse_path env"
    "str_lower env' = str_lower env"
  shows "local_name env' url = local_name env url"
proof -
  have l: "py_lower env' = py_lower env"
    using assms(3) by (simp add: py_lower_def fun_eq_iff)
  show ?thesis unfolding local_name_def l assms(1) assms(2) by (rule refl)
qed

lemma download_image_name:
  "download_image env i url dest_dir st = (Some f, st') \<Longrightarrow> local_name env url = Some f"
  by (auto simp add: download_image_def split: option.splits fetch_result.splits)

lemmas name_eval = local_name_def example_env_def utf8_encode_def utf8_char_def str_def example_path_def
     example_md5_def url_hash_def hexdigit_def splitext_ext_def py_lower_def ascii_lower_def recognised_def unat_of_nat

text \<open>
  C9, amended: whenever \<open>download_image\<close> returns a file name, the name is
  \<open>img_\<close>, twelve lower-case hexadecimal digits and an extension; the extension
  is the extension of the URL's path converted to lower case when that is one of
  \<open>.jpg\<close>, \<open>.jpeg\<close>, \<open>.png\<close>, \<open>.gif\<close>, \<open>.webp\<close>, \<open>.svg\<close>, and
  \<open>.jpg\<close> otherwise. The name depends on the URL alone: in any other run, whatever
  the download number, the directory, the file system and the outcome of the
  transfers, a name returned for the same URL is the same name.
\<close>

theorem local_file_name:
  assumes "download_image env i url dest_dir st = (Some f, st')"
  shows "(\<exists>h ext path. f = str ''img_'' @ h @ ext \<and> length h = 12 \<and> list_all is_lower_hex h \<and>
           ext \<in> set recognised \<and> urlparse_path env url = Inr path \<and>
           ext = (if py_lower env (splitext_ext path) \<in> set recognised
                  then py_lower env (splitext_ext path) else str ''.jpg'')) \<and>
         (\<forall>env' i' dest_dir' st2 f' st2'.
            md5 env' = md5 env \<and> urlparse_path env' = urlparse_path env \<and>
            str_lower env' = str_lower env \<and>
            download_image env' i' url dest_dir' st2 = (Some f', st2') \<longrightarrow> f' = f)"
proof -
  have n: "local_name env url = Some f" using assms by (rule download_image_name)
  have "f' = f"
    if "md5 env' = md5 env" "urlparse_path env' = urlparse_path env"
      "str_lower env' = str_lower env"
      "download_image env' i' url dest_dir' st2 = (Some f', st2')"
    for env' i' dest_dir' st2 f' st2'
  proof -
    have "local_name env' url = Some f'" using that(4) by (rule download_image_name)
    then show ?thesis using n local_name_library [OF that(1) that(2) that(3), of url] by simp
  qed
  then show ?thesis using local_name_shape [OF n] by blast
qed

text \<open>
  C9, as the claim states it, fails: the path of \<open>http://x/A.PNG\<close> has the
  extension \<open>.PNG\<close>, which is not one of the six; the file name does not end in
  \<open>.jpg\<close> but in \<open>.png\<close>, since the extension is compared after \<open>lower()\<close>.
\<close>

theorem local_file_name_upper_case:
  "download_image example_env 0 (str ''http://x/A.PNG'') (str ''/tmp/w'') \<lparr>fs = {}, trace = []\<rparr> =
     (Some (str ''img_d94f7ef70850.png''),
      \<lparr>fs = {str ''/tmp/w/img_d94f7ef70850.png''}, trace = [EvFetch (str ''http://x/A.PNG'')]\<rparr>) \<and>
   urlparse_path example_env (str ''http://x/A.PNG'') = Inr (str ''/A.PNG'') \<and>
   splitext_ext (str ''/A.PNG'') = str ''.PNG'' \<and>
   str ''.PNG'' \<notin> set recognised"
  by (simp add: download_image_def name_eval example_fetch_def create_def log_def path_join_def)

text \<open>C9: the first download of the examples, \<open>http://x/a.png\<close>.\<close>

theorem local_file_name_witness:
  "download_image example_env 0 (str ''http://x/a.png'') (str ''/tmp/w'') \<lparr>fs = {}, trace = []\<rparr> =
     (Some (str ''img_d4eaaf0e8567.png''),
      \<lparr>fs = {str ''/tmp/w/img_d4eaaf0e8567.png''}, trace = [EvFetch (str ''http://x/a.png'')]\<rparr>) \<and>
   (\<exists>h ext path. str ''img_d4eaaf0e8567.png'' = str ''img_'' @ h @ ext \<and> length h = 12 \<and>
      list_all is_lower_hex h \<and> ext \<in> set recognised \<and>
      urlparse_path example_env (str ''http://x/a.png'') = Inr path \<and>
      ext = (if py_lower example_env (splitext_ext path) \<in> set recognised
             then py_lower example_env (splitext_ext path) else str ''.jpg''))"
proof -
  have h: "download_image example_env 0 (str ''http://x/a.png'') (str ''/tmp/w'')
             \<lparr>fs = {}, trace = []\<rparr> =
     (Some (str ''img_d4eaaf0e8567.png''),
      \<lparr>fs = {str ''/tmp/w/img_d4eaaf0e8567.png''}, trace = [EvFetch (str ''http://x/a.png'')]\<rparr>)"
    by (simp add: download_image_def name_eval example_fetch_def create_def log_def
        path_join_def)
  from local_file_name [OF h] show ?thesis using h by blast
qed

section \<open>Extraction and substitution at concrete articles\<close>

lemmas extract_eval = extract_images_def example_env_def example_tags_def example_urljoin_def
  handle_starttag_def py_truthy_def is_http_def join_base_def str_def

text \<open>
  C6: for the article \<open><img src="//[">\<close> with the base URL
  \<open>https://site.example/article\<close>, the parser reports one \<open>img\<close> tag, its
  \<open>src\<close> does not start with \<open>http://\<close> or \<open>https://\<close>, and
  \<open>urljoin\<close> raises \<open>ValueError\<close>: nothing in \<open>handle_starttag\<close> catches it, and
  the Extractor raises instead of returning a list.
\<close>

theorem extract_raises_on_bad_src:
  "extract_images example_env (str ''<img src=\"//[\">'') (JStr (str ''https://site.example/article'')) =
     Inl (ValueError (str ''Invalid IPv6 URL''))"
  by (simp add: extract_eval)

text \<open>The relative source \<open>/a.png\<close> is resolved against the base URL.\<close>

lemma extract_relative:
  "extract_images example_env (str ''<img src=\"/a.png\">'') (JStr (str ''https://site.example/article'')) =
     Inr [str ''https://site.example/a.png'']"
  by (simp add: extract_eval)

text \<open>
  C4: two images, \<open>http://x/a.png\<close> fetched and \<open>http://x/a.png?w=2\<close> not.
  The stage does not fail, but the \<open>src\<close> of the image that was not fetched is
  altered too, by the substitution for the first URL.
\<close>

theorem failed_fetch_src_altered:
  "fst (process_images example_env
          (JStr (str ''<img src=\"http://x/a.png\"><img src=\"http://x/a.png?w=2\">'')) (JStr [])
          (str ''/tmp/w'') \<lparr>fs = {}, trace = []\<rparr>) =
     Inr (str ''<img src=\"img_d4eaaf0e8567.png\"><img src=\"img_d4eaaf0e8567.png\"?w=2\">'') \<and>
   fetch example_env 1 (str ''http://x/a.png?w=2'') = FailedBeforeOpen (OSError (str ''timed out''))"
  by (simp add: process_images_def extract_eval download_image_def name_eval example_fetch_def
      create_def log_def path_join_def dict_set_def re_eval)

section \<open>Pipeline Orchestrator: validation\<close>

lemma emit_response:
  assumes "\<forall>e\<in>set_option err. \<forall>c\<in>set e. scalar c"
    and "length (json_dumps (float_repr env) (response ok err)) < 4294967296"
  shows "\<exists>b. emit env (response ok err) st = st\<lparr>trace := trace st @ [EvStdout b]\<rparr> \<and>
             read_message (byteorder env) b = Inr (Some (response ok err))"
proof -
  obtain out where o: "send_message (float_repr env) (byteorder env) (response ok err) = Inr out"
    "read_message (byteorder env) out = Inr (Some (response ok err))"
    using response_round_trip [OF assms, of "byteorder env"] by blast
  have "emit env (response ok err) st = st\<lparr>trace := trace st @ [EvStdout out]\<rparr>"
    using o(1) by (simp add: emit_def log_def)
  with o(2) show ?thesis by blast
qed

lemma emit_error:
  assumes "list_all scalar m" "length (escape m) < 1000"
  shows "\<exists>b. emit env (error_response m) st = st\<lparr>trace := trace st @ [EvStdout b]\<rparr> \<and>
             read_message (byteorder env) b = Inr (Some (error_response m))"
proof -
  have 1: "\<forall>e\<in>set_option (Some m). \<forall>c\<in>set e. scalar c"
    using assms(1) by (simp add: list_all_iff)
  have 2: "length (json_dumps (float_repr env) (response False (Some m))) < 4294967296"
    using assms(2) by (simp add: dumps_response str_def)
  show ?thesis unfolding error_response_eq by (rule emit_response [OF 1 2])
qed

text \<open>
  C5, amended: for every request object whose \<open>content\<close> is absent or false
  (the empty string, among others), \<open>main\<close> writes one Response and does nothing
  else, so that no workspace directory is created: the Response is
  \<open>{success: false, error: "No content provided"}\<close> when the object has at least one
  field, and \<open>{success: false, error: "No message received"}\<close> when it has none.
\<close>

theorem empty_content_rejected:
  assumes "read_message (byteorder env) stdin = Inr (Some (JObj d))"
    and "\<not> py_truthy env (get_default d (str ''content'') (JStr []))"
  shows "\<exists>b. main env stdin st = st\<lparr>trace := trace st @ [EvStdout b]\<rparr> \<and>
             read_message (byteorder env) b =
               Inr (Some (error_response
                      (if d = [] then str ''No message received''
                       else str ''No content provided'')))"
proof (cases "d = []")
  case True
  have "main env stdin st = emit env (error_response (str ''No message received'')) st"
    using assms(1) True by (simp add: main_def py_truthy_def)
  moreover have "list_all scalar (str ''No message received'')"
    "length (escape (str ''No message received'')) < 1000"
    by (simp_all add: str_def scalar_def escape_def escape_char_def)
  ultimately show ?thesis using True emit_error by simp
next
  case False
  have "main env stdin st = emit env (error_response (str ''No content provided'')) st"
    using assms False by (simp add: main_def py_truthy_def Let_def)
  moreover have "list_all scalar (str ''No content provided'')"
    "length (escape (str ''No content provided'')) < 1000"
    by (simp_all add: str_def scalar_def escape_def escape_char_def)
  ultimately show ?thesis using False emit_error by simp
qed

lemmas frame_eval = read_message_def native_bytes_def le_bytes_def struct_unpack_def le_value_def
  utf8_decode_def json_eval

text \<open>
  C5, as the claim states it, fails: in the request \<open>{}\<close> the field
  \<open>content\<close> is absent, and the error of the Response is
  \<open>No message received\<close>, in which \<open>content\<close> does not occur: \<open>main\<close>
  tests \<open>not message\<close> first, and an empty dictionary is false.
\<close>

theorem empty_object_not_content:
  "read_message LittleEndian (native_bytes LittleEndian 2 @ [123, 125]) = Inr (Some (JObj [])) \<and>
   dict_get [] (str ''content'') = (None :: json option) \<and>
   main example_env (native_bytes LittleEndian 2 @ [123, 125]) \<lparr>fs = {}, trace = []\<rparr> =
     \<lparr>fs = {},
      trace = [EvStdout (native_bytes LittleEndian 50 @
                 map of_nat (str ''{\"success\": false, \"error\": \"No message received\"}''))]\<rparr>"
  by (simp add: main_def example_env_def py_truthy_def frame_eval dict_get_def emit_def
      send_message_def error_response_def quoted_def escape_def escape_char_def utf8_encode_def
      utf8_char_def struct_pack_def log_def)

text \<open>C5: the request \<open>{"content":""}\<close>.\<close>

theorem empty_content_rejected_witness:
  "read_message (byteorder example_env)
     (native_bytes LittleEndian 14 @ map of_nat (str ''{\"content\":\"\"}'')) =
     Inr (Some (JObj [(str ''content'', JStr [])])) \<and>
   \<not> py_truthy example_env (get_default [(str ''content'', JStr [])] (str ''content'') (JStr [])) \<and>
   (\<exists>b. main example_env (native_bytes LittleEndian 14 @ map of_nat (str ''{\"content\":\"\"}''))
          \<lparr>fs = {}, trace = []\<rparr> = \<lparr>fs = {}, trace = [EvStdout b]\<rparr> \<and>
        read_message (byteorder example_env) b =
          Inr (Some (error_response (str ''No content provided''))))"
proof -
  have r: "read_message (byteorder example_env)
     (native_bytes LittleEndian 14 @ map of_nat (str ''{\"content\":\"\"}'')) =
     Inr (Some (JObj [(str ''content'', JStr [])]))"
    by (simp add: example_env_def frame_eval)
  have c: "\<not> py_truthy example_env
              (get_default [(str ''content'', JStr [])] (str ''content'') (JStr []))"
    by (simp add: py_truthy_def get_default_def dict_get_def)
  from empty_content_rejected [OF r c, of "\<lparr>fs = {}, trace = []\<rparr>"] r c
  show ?thesis by simp
qed

section \<open>The workspace is removed\<close>

lemma fs_log: "fs (log ev st) = fs st"
  by (simp add: log_def)

lemma fs_emit: "fs (emit env m st) = fs st"
  by (simp add: emit_def fs_log split: sum.splits)

lemma fs_handle: "fs (handle env e st) = fs st"
  by (simp add: handle_def fs_emit)

lemma fs_cleanup: "fs (cleanup t st) \<subseteq> fs st"
  by (auto simp add: cleanup_def log_def)

lemma fs_cleanup_handle: "fs st \<subseteq> F \<Longrightarrow> fs (cleanup t (handle env e st)) \<subseteq> F"
  using fs_cleanup [of t "handle env e st"] by (simp add: fs_handle)

lemma fs_cleanup_emit: "fs st \<subseteq> F \<Longrightarrow> fs (cleanup t (emit env m st)) \<subseteq> F"
  using fs_cleanup [of t "emit env m st"] by (simp add: fs_emit)

lemma create_epub_clean:
  assumes "mkdtemp env = Inr w"
  shows "\<forall>p\<in>fs (snd (create_epub env title c u out st)). \<not> inside w p"
  using assms by (simp add: create_epub_def rmtree_def log_def split: prod.splits)

lemma create_epub_failed:
  assumes "mkdtemp env = Inl e"
  shows "snd (create_epub env title c u out st) = st"
  using assms by (simp add: create_epub_def)

lemma main_fs:
  "fs (main env stdin st) \<subseteq> fs st \<or>
   (\<exists>title c u. fs (main env stdin st) \<subseteq> fs (snd (create_epub env title c u (mktemp env) st)))"
proof -
  let ?goal = "fs (main env stdin st) \<subseteq> fs st \<or>
   (\<exists>title c u. fs (main env stdin st) \<subseteq> fs (snd (create_epub env title c u (mktemp env) st)))"
  show ?thesis
  proof (cases "read_message (byteorder env) stdin")
    case (Inl e)
    then show ?thesis by (simp add: main_def fs_handle)
  next
    case (Inr m)
    show ?thesis
    proof (cases m)
      case None
      then show ?thesis using Inr by (simp add: main_def fs_emit)
    next
      case (Some message)
      show ?thesis
      proof (cases "py_truthy env message")
        case False
        then show ?thesis using Inr Some by (simp add: main_def fs_emit)
      next
        case True
        show ?thesis
        proof (cases message)
          case (JObj d)
          define title where "title = get_default d (str ''title'') (JStr (str ''Untitled''))"
          define content where "content = get_default d (str ''content'') (JStr [])"
          define url where "url = get_default d (str ''url'') (JStr [])"
          show ?thesis
          proof (cases "py_truthy env content")
            case False
            then show ?thesis using Inr Some True JObj
              by (simp add: main_def fs_emit content_def)
          next
            case c: True
            show ?thesis
            proof (cases "load_config env")
              case (Inl e)
              then show ?thesis using Inr Some True JObj c
                by (simp add: main_def fs_handle content_def)
            next
              case cfg: (Inr config)
              obtain r st1 where ce: "create_epub env title content url (mktemp env) st = (r, st1)"
                by (cases "create_epub env title content url (mktemp env) st")
              have m: "main env stdin st =
                  (case r of
                     Inl e \<Rightarrow> cleanup (mktemp env) (handle env e st1)
                   | Inr epub_path \<Rightarrow>
                       (case send_email env of
                          Some e \<Rightarrow> cleanup (mktemp env) (handle env e (log EvSendEmail st1))
                        | None \<Rightarrow>
                            cleanup (mktemp env)
                              (emit env success_response (log EvSendEmail st1))))"
                using Inr Some True JObj c cfg ce
                by (simp add: main_def Let_def content_def [symmetric] title_def [symmetric]
                    url_def [symmetric])
              have "fs (main env stdin st) \<subseteq> fs st1"
                unfolding m
                by (cases r; cases "send_email env")
                  (simp_all add: fs_cleanup_handle fs_cleanup_emit fs_log)
              then show ?thesis using ce by (metis snd_conv)
            qed
          qed
        qed (use Inr Some True in \<open>simp_all add: main_def fs_handle\<close>)
      qed
    qed
  qed
qed

text \<open>
  C2: \<open>mkdtemp\<close> returns a new directory \<open>w\<close>, so that nothing inside \<open>w\<close>
  exists before the run. Then, whatever the input, whatever the downloads, the
  writing of the document, the converter and the delivery do, and whichever branch
  \<open>main\<close> takes, nothing inside \<open>w\<close>, and not \<open>w\<close> itself, exists when \<open>main\<close>
  returns. (\<open>rmtree\<close> is taken to remove what it is asked to remove.)
\<close>

theorem workspace_removed:
  assumes "mkdtemp env = Inr w" and "\<forall>p\<in>fs st. \<not> inside w p"
  shows "\<forall>p\<in>fs (main env stdin st). \<not> inside w p"
  using main_fs [of env stdin st] create_epub_clean [OF assms(1)] assms(2) by blast

section \<open>Pipeline Orchestrator: the converter times out\<close>

lemma trace_cleanup:
  "\<exists>tail. trace (cleanup t st) = trace st @ tail \<and> set tail \<subseteq> {EvRemove t}"
  by (simp add: cleanup_def log_def)

text \<open>
  C7: a run that gets as far as the converter (a request object with content, a
  configuration, a workspace, the images processed, the document written) and whose
  converter runs into the timeout. \<open>main\<close> then writes the Response
  \<open>{success: false, error: "pandoc timed out - article may be too large"}\<close>, after
  the workspace was removed: \<open>rmtree\<close> comes between the converter and the
  Response, only the removal of the output file can follow, and nothing inside the
  workspace exists at the end.
\<close>

theorem converter_timeout:
  assumes r: "read_message (byteorder env) stdin = Inr (Some (JObj d))"
    and c: "py_truthy env (get_default d (str ''content'') (JStr []))"
    and cfg: "load_config env = Inr config"
    and w: "mkdtemp env = Inr w"
    and p: "process_images env (get_default d (str ''content'') (JStr []))
              (get_default d (str ''url'') (JStr [])) w (create w (log (EvMkdtemp w) st)) =
            (Inr html, st1)"
    and wr: "write_html env = None"
    and t: "pandoc env
              (pandoc_cmd (path_join w (str ''article.html'')) (mktemp env)
                 (fmt env (get_default d (str ''title'') (JStr (str ''Untitled'')))) w) =
            PandocRaised TimeoutExpired"
  shows "\<exists>b tail.
           trace (main env stdin st) =
             trace st1 @
             [EvWrite (path_join w (str ''article.html''))
                (full_html (fmt env (get_default d (str ''title'') (JStr (str ''Untitled'')))) html),
              EvPandoc
                (pandoc_cmd (path_join w (str ''article.html'')) (mktemp env)
                   (fmt env (get_default d (str ''title'') (JStr (str ''Untitled'')))) w),
              EvRmtree w, EvStdout b] @ tail \<and>
           set tail \<subseteq> {EvRemove (mktemp env)} \<and>
           read_message (byteorder env) b =
             Inr (Some (error_response (str ''pandoc timed out - article may be too large''))) \<and>
           (\<forall>p\<in>fs (main env stdin st). \<not> inside w p)"
proof -
  define title where "title = get_default d (str ''title'') (JStr (str ''Untitled''))"
  define content where "content = get_default d (str ''content'') (JStr [])"
  define url where "url = get_default d (str ''url'') (JStr [])"
  define html_path where "html_path = path_join w (str ''article.html'')"
  define cmd where "cmd = pandoc_cmd html_path (mktemp env) (fmt env title) w"
  define st2 where "st2 = create html_path (log (EvWrite html_path (full_html (fmt env title) html)) st1)"
  define st4 where "st4 = (if pandoc_output env then create (mktemp env) (log (EvPandoc cmd) st2)
                           else log (EvPandoc cmd) st2)"
  define msg where "msg = str ''pandoc timed out - article may be too large''"
  have d: "d \<noteq> []"
    using c by (auto simp add: get_default_def dict_get_def py_truthy_def)
  have body: "epub_body env title content url (mktemp env) w (create w (log (EvMkdtemp w) st)) =
                (Inl TimeoutExpired, st4)"
    using p wr t
    by (simp add: epub_body_def Let_def title_def content_def url_def html_path_def cmd_def
        st2_def st4_def)
  have ce: "create_epub env title content url (mktemp env) st = (Inl TimeoutExpired, rmtree w st4)"
    using w body by (simp add: create_epub_def)
  have m: "main env stdin st = cleanup (mktemp env) (emit env (error_response msg) (rmtree w st4))"
    using r c cfg d ce
    by (simp add: main_def Let_def py_truthy_def title_def content_def url_def handle_def msg_def)
  have "list_all scalar msg" "length (escape msg) < 1000"
    by (simp_all add: msg_def str_def scalar_def escape_def escape_char_def)
  then obtain b where b: "emit env (error_response msg) (rmtree w st4) =
        (rmtree w st4)\<lparr>trace := trace (rmtree w st4) @ [EvStdout b]\<rparr>"
      "read_message (byteorder env) b = Inr (Some (error_response msg))"
    using emit_error by blast
  obtain tail where tail: "trace (main env stdin st) =
      trace ((rmtree w st4)\<lparr>trace := trace (rmtree w st4) @ [EvStdout b]\<rparr>) @ tail"
      "set tail \<subseteq> {EvRemove (mktemp env)}"
    unfolding m b(1) using trace_cleanup by blast
  have tr: "trace (rmtree w st4) =
      trace st1 @ [EvWrite html_path (full_html (fmt env title) html), EvPandoc cmd, EvRmtree w]"
    by (simp add: rmtree_def log_def st4_def st2_def create_def)
  have "fs (main env stdin st) \<subseteq> fs (rmtree w st4)"
    unfolding m by (rule fs_cleanup_emit) simp
  then have clean: "\<forall>p\<in>fs (main env stdin st). \<not> inside w p"
    by (auto simp add: rmtree_def log_def)
  show ?thesis
    using tail b(2) clean tr
    by (simp add: title_def html_path_def cmd_def msg_def)
qed

section \<open>A run of the examples\<close>

lemmas run_eval = main_def example_env_def py_truthy_def frame_eval dict_get_def get_default_def
  emit_def handle_def send_message_def error_response_def quoted_def escape_def escape_char_def
  utf8_encode_def utf8_char_def struct_pack_def log_def create_def create_epub_def
  epub_body_def process_images_def extract_images_def example_tags_def rmtree_def inside_def
  path_join_def example_pandoc_def cleanup_def fmt_def Let_def

text \<open>
  C2: the request \<open>{"content":"<p>hi</p>"}\<close> in the environment of the examples.
  The workspace is created in this run and does not exist at its end.
\<close>

theorem workspace_removed_witness:
  "mkdtemp example_env = Inr (str ''/tmp/kindle_beam_w'') \<and>
   \<not> inside (str ''/tmp/kindle_beam_w'') (str ''/home/u/notes'') \<and>
   EvMkdtemp (str ''/tmp/kindle_beam_w'') \<in>
     set (trace (main example_env
       (native_bytes LittleEndian 23 @ map of_nat (str ''{\"content\":\"<p>hi</p>\"}''))
       \<lparr>fs = {str ''/home/u/notes''}, trace = []\<rparr>)) \<and>
   str ''/tmp/kindle_beam_w'' \<notin>
     fs (main example_env
       (native_bytes LittleEndian 23 @ map of_nat (str ''{\"content\":\"<p>hi</p>\"}''))
       \<lparr>fs = {str ''/home/u/notes''}, trace = []\<rparr>)"
proof -
  have w: "mkdtemp example_env = Inr (str ''/tmp/kindle_beam_w'')"
    by (simp add: example_env_def)
  have n: "\<not> inside (str ''/tmp/kindle_beam_w'') (str ''/home/u/notes'')"
    by (simp add: inside_def str_def)
  then have f: "\<forall>p\<in>fs \<lparr>fs = {str ''/home/u/notes''}, trace = []\<rparr>.
                  \<not> inside (str ''/tmp/kindle_beam_w'') p"
    by simp
  have e: "EvMkdtemp (str ''/tmp/kindle_beam_w'') \<in>
     set (trace (main example_env
       (native_bytes LittleEndian 23 @ map of_nat (str ''{\"content\":\"<p>hi</p>\"}''))
       \<lparr>fs = {str ''/home/u/notes''}, trace = []\<rparr>))"
    by (simp add: run_eval)
  have i: "inside (str ''/tmp/kindle_beam_w'') (str ''/tmp/kindle_beam_w'')"
    by (simp add: inside_def)
  from workspace_removed [OF w f] i w n e show ?thesis by blast
qed

text \<open>
  C7: the request \<open>{"content":"<p>hi</p>"}\<close> in the environment of the examples,
  whose converter runs into the timeout.
\<close>

theorem converter_timeout_witness:
  "read_message (byteorder example_env)
     (native_bytes LittleEndian 23 @ map of_nat (str ''{\"content\":\"<p>hi</p>\"}'')) =
     Inr (Some (JObj [(str ''content'', JStr (str ''<p>hi</p>''))])) \<and>
   load_config example_env = Inr [] \<and>
   mkdtemp example_env = Inr (str ''/tmp/kindle_beam_w'') \<and>
   write_html example_env = None \<and>
   pandoc example_env
     (pandoc_cmd (str ''/tmp/kindle_beam_w/article.html'') (mktemp example_env) (str ''Untitled'')
        (str ''/tmp/kindle_beam_w'')) = PandocRaised TimeoutExpired \<and>
   (\<exists>b. EvStdout b \<in> set (trace (main example_env
             (native_bytes LittleEndian 23 @ map of_nat (str ''{\"content\":\"<p>hi</p>\"}''))
             \<lparr>fs = {}, trace = []\<rparr>)) \<and>
        read_message (byteorder example_env) b =
          Inr (Some (error_response (str ''pandoc timed out - article may be too large'')))) \<and>
   EvRmtree (str ''/tmp/kindle_beam_w'') \<in> set (trace (main example_env
             (native_bytes LittleEndian 23 @ map of_nat (str ''{\"content\":\"<p>hi</p>\"}''))
             \<lparr>fs = {}, trace = []\<rparr>))"
proof -
  let ?stdin = "native_bytes LittleEndian 23 @ map of_nat (str ''{\"content\":\"<p>hi</p>\"}'')"
  let ?d = "[(str ''content'', JStr (str ''<p>hi</p>''))]"
  let ?w = "str ''/tmp/kindle_beam_w''"
  let ?st = "\<lparr>fs = {}, trace = []\<rparr>"
  have r: "read_message (byteorder example_env) ?stdin = Inr (Some (JObj ?d))"
    by (simp add: example_env_def frame_eval)
  have c: "py_truthy example_env (get_default ?d (str ''content'') (JStr []))"
    by (simp add: py_truthy_def get_default_def dict_get_def str_def)
  have cfg: "load_config example_env = Inr []" by (simp add: example_env_def)
  have w: "mkdtemp example_env = Inr ?w" by (simp add: example_env_def)
  have p: "process_images example_env (get_default ?d (str ''content'') (JStr []))
             (get_default ?d (str ''url'') (JStr [])) ?w (create ?w (log (EvMkdtemp ?w) ?st)) =
           (Inr (str ''<p>hi</p>''), create ?w (log (EvMkdtemp ?w) ?st))"
    by (simp add: process_images_def extract_images_def example_env_def example_tags_def
        get_default_def dict_get_def str_def)
  have wr: "write_html example_env = None" by (simp add: example_env_def)
  have t: "pandoc example_env
             (pandoc_cmd (path_join ?w (str ''article.html'')) (mktemp example_env)
                (fmt example_env (get_default ?d (str ''title'') (JStr (str ''Untitled'')))) ?w) =
           PandocRaised TimeoutExpired"
    by (simp add: example_env_def example_pandoc_def)
  have t': "pandoc example_env
     (pandoc_cmd (str ''/tmp/kindle_beam_w/article.html'') (mktemp example_env) (str ''Untitled'')
        (str ''/tmp/kindle_beam_w'')) = PandocRaised TimeoutExpired"
    by (simp add: example_env_def example_pandoc_def)
  from converter_timeout [OF r c cfg w p wr t]
  obtain b tail where
    "trace (main example_env ?stdin ?st) =
       trace (create ?w (log (EvMkdtemp ?w) ?st)) @
       [EvWrite (path_join ?w (str ''article.html''))
          (full_html (fmt example_env (get_default ?d (str ''title'') (JStr (str ''Untitled''))))
             (str ''<p>hi</p>'')),
        EvPandoc
          (pandoc_cmd (path_join ?w (str ''article.html'')) (mktemp example_env)
             (fmt example_env (get_default ?d (str ''title'') (JStr (str ''Untitled'')))) ?w),
        EvRmtree ?w, EvStdout b] @ tail"
    "read_message (byteorder example_env) b =
       Inr (Some (error_response (str ''pandoc timed out - article may be too large'')))"
    by blast
  then have "EvStdout b \<in> set (trace (main example_env ?stdin ?st))"
    "EvRmtree ?w \<in> set (trace (main example_env ?stdin ?st))"
    "read_message (byteorder example_env) b =
       Inr (Some (error_response (str ''pandoc timed out - article may be too large'')))"
    by simp_all
  then show ?thesis using r cfg w wr t' by blast
qed

end
